theory Spec2Isabelle
  imports Main "HOL-Library.AList" "HOL-Library.Multiset"
begin

section \<open>JSON values as the application reads them\<close>

text \<open>
  The directory service answers in JSON. Leaf values that the application copies, compares
  or tests for truthiness are modelled by \<open>jsval\<close>: an integral number, a string, \<open>null\<close>,
  or \<open>undefined\<close> (the field is absent). Equality of \<open>jsval\<close> is the SameValueZero
  comparison that \<open>Array.prototype.includes\<close> and \<open>Map\<close> keys use on such primitives:
  the number 55 and the string "55" are different identifiers.
\<close>

datatype jsval = Num int | Str string | Null | Undefined

fun truthy :: "jsval \<Rightarrow> bool" where
  "truthy (Num n) = (n \<noteq> 0)"
| "truthy (Str s) = (s \<noteq> [])"
| "truthy Null = False"
| "truthy Undefined = False"

text \<open>
  A response field that holds either nothing, one object, or an array of objects
  (\<open>ProjectMetadata\<close> is documented to come in all three shapes).
\<close>

datatype 'a jsfield = Absent | Single 'a | Array "'a list"

section \<open>Response shapes\<close>

record properties =
  ProjectID :: jsval
  ProjectName :: jsval
  LocalityDetails :: jsval
  StartDate :: jsval
  EndDate :: jsval
  SiteCode :: jsval
  LocationPrecision :: jsval

text \<open>
  A GeoJSON point feature. \<open>coordinates\<close> is the pair \<open>[lon, lat]\<close>:
  \<open>coordinates[0]\<close> is its first component, \<open>coordinates[1]\<close> its second. The type
  \<open>'c\<close> of a coordinate number is left open; its conversion to a string in a template
  literal is the parameter \<open>str\<close> of the functions below.
\<close>

record 'c geometry =
  coordinates :: "'c \<times> 'c"

record 'c feature =
  feature_id :: jsval
  geometry :: "'c geometry"
  properties :: properties

record 'c coordinate =
  latitude :: 'c
  longitude :: 'c

record surveyDetail =
  projectName :: jsval
  localityDetails :: jsval
  startDate :: jsval
  endDate :: jsval
  siteCode :: jsval
  precision :: jsval

text \<open>An entry of \<open>markerGroups\<close>, and the marker built from it by the object spread.\<close>

record 'c markerGroup =
  coordinate :: "'c coordinate"
  surveys :: "properties list"

record 'c surveyMarker = "'c markerGroup" +
  surveyDetails :: "surveyDetail list"

text \<open>
  An entry of a \<open>Project\<close> list and the \<open>Project\<close> object of a metadata record. Only the
  fields the pipeline reads are modelled; the display fields (CustodianOrganisation,
  Source, Abstract and the others), which the code copies unchanged, are left out.
  \<open>surveyCount\<close> is added by the object spread of the species variant.
\<close>

record project =
  ProjectID :: jsval
  Name :: jsval

record metadata =
  Project :: project
  LastLoadDate :: jsval

record annotated = metadata +
  surveyCount :: nat

record species =
  ScientificName :: string
  SpeciesName :: jsval
  TaxonID :: jsval

text \<open>The marker of the autofill variant (\<open>marker_id\<close> is its \<open>id\<close>).\<close>

record 'c marker =
  marker_id :: jsval
  coordinate :: "'c coordinate"
  title :: jsval
  description :: jsval

text \<open>
  \<open>response.data\<close>: an object whose fields may be absent. \<open>Project\<close>, \<open>features\<close> and
  \<open>Species\<close> are arrays when present.
\<close>

record 'c data =
  Project :: "project list option"
  features :: "'c feature list option"
  ProjectMetadata :: "metadata jsfield"
  Species :: "species list option"

section \<open>Requests, failures and application state\<close>

text \<open>
  One constructor per operation of the directory service; the arguments are the values
  the URL is built from (an identifier list stands for its \<open>join(',')\<close>, a coordinate and
  a radius for the \<open>circle\<close> parameter). The service is a function from requests to
  replies; \<open>None\<close> is a rejected \<open>axios.get\<close> (any transport failure).
\<close>

datatype 'c request =
    speciessearch string
  | projectsearch string
  | getsurveys "jsval list" "'c coordinate" 'c
  | getprojects "'c coordinate" 'c
  | getsurveysbyspecies jsval "'c coordinate" 'c
  | getprojectsmetadatabyid "jsval list"

datatype exn = TransportFailure | TypeError

text \<open>
  The state variables of the component (the union over the three variants of the file;
  \<open>'m\<close> and \<open>'k\<close> are the element types of \<open>projectMetadata\<close> and \<open>markers\<close>, which
  differ between variants), together with the observable effects: the requests issued,
  the lines written by \<open>console.error\<close> and the alerts shown.
\<close>

record ('c, 'm, 'k) app =
  location :: "'c coordinate option"
  keyword :: string
  suggestions :: "species list"
  loadingSuggestions :: bool
  radius :: 'c
  surveyData :: "jsval list"
  projectMetadata :: "'m list"
  loadingProjects :: bool
  loading :: bool
  errorMsg :: "string option"
  markers :: "'k list"
  keywordProjectCount :: nat
  areaProjectCount :: nat
  isTypingKeyword :: bool
  calls :: "'c request list"
  console :: "(string \<times> exn) list"
  alerts :: "string list"

text \<open>\<open>await axios.get(url)\<close>: the request is issued, the reply is what the service gives.\<close>

definition axios_get ::
  "('c request \<Rightarrow> 'c data option) \<Rightarrow> 'c request \<Rightarrow> ('c, 'm, 'k) app
     \<Rightarrow> ('c, 'm, 'k) app \<times> 'c data option" where
  "axios_get svc req st = (st\<lparr>calls := calls st @ [req]\<rparr>, svc req)"

text \<open>\<open>data?.Project?.map((project) => project.ProjectID) || []\<close>\<close>

definition projectIDsOf :: "'c data \<Rightarrow> jsval list" where
  "projectIDsOf d = (case data.Project d of None \<Rightarrow> [] | Some ps \<Rightarrow> map project.ProjectID ps)"

section \<open>Array.prototype.sort\<close>

text \<open>
  \<open>sort\<close> with a comparator is stable, and a comparator result of \<open>NaN\<close> (here \<open>None\<close>)
  counts as 0. For a consistent comparator the result is the one stable sorted
  arrangement, which this insertion sort computes; for an inconsistent comparator
  ECMAScript leaves the order to the engine, and nothing is claimed about it below.
\<close>

definition sortCompare :: "('a \<Rightarrow> 'a \<Rightarrow> int option) \<Rightarrow> 'a \<Rightarrow> 'a \<Rightarrow> int" where
  "sortCompare comparefn x y = (case comparefn x y of None \<Rightarrow> 0 | Some v \<Rightarrow> v)"

fun insert_sorted :: "('a \<Rightarrow> 'a \<Rightarrow> int option) \<Rightarrow> 'a \<Rightarrow> 'a list \<Rightarrow> 'a list" where
  "insert_sorted comparefn x [] = [x]"
| "insert_sorted comparefn x (y # ys) =
     (if sortCompare comparefn x y \<le> 0 then x # y # ys
      else y # insert_sorted comparefn x ys)"

definition js_sort :: "('a \<Rightarrow> 'a \<Rightarrow> int option) \<Rightarrow> 'a list \<Rightarrow> 'a list" where
  "js_sort comparefn xs = foldr (insert_sorted comparefn) xs []"

section \<open>Stage 3 of the species variant: counting and grouping (fetchSurveys)\<close>

text \<open>
  \<open>projectIDs\<close> is a \<open>Map\<close> and \<open>markerGroups\<close> a plain object with string keys. Both keep
  their keys in insertion order, so both are association lists: \<open>map_of\<close> reads a key,
  \<open>AList.update\<close> overwrites a key in place or appends a new one, \<open>AList.map_entry\<close>
  changes the value stored under a key. A coordinate key always contains a comma, so it is
  never an array index (which \<open>Object.values\<close> would move to the front) and never a
  property inherited from \<open>Object.prototype\<close>.
\<close>

definition coordKey :: "('c \<Rightarrow> string) \<Rightarrow> 'c feature \<Rightarrow> string" where
  "coordKey str survey =
     str (snd (coordinates (geometry survey))) @ '','' @ str (fst (coordinates (geometry survey)))"

text \<open>
  \<open>if (projectID) projectIDs.set(projectID, (projectIDs.get(projectID) || 0) + 1)\<close>.
  A stored count is never 0, so \<open>count || 0\<close> is the count.
\<close>

definition countProject :: "(jsval \<times> nat) list \<Rightarrow> 'c feature \<Rightarrow> (jsval \<times> nat) list" where
  "countProject projectIDs survey =
     (let projectID = properties.ProjectID (properties survey) in
      if truthy projectID
      then AList.update projectID
             ((case map_of projectIDs projectID of None \<Rightarrow> 0 | Some n \<Rightarrow> n) + 1) projectIDs
      else projectIDs)"

definition groupSurvey ::
  "('c \<Rightarrow> string) \<Rightarrow> (string \<times> 'c markerGroup) list \<Rightarrow> 'c feature
     \<Rightarrow> (string \<times> 'c markerGroup) list" where
  "groupSurvey str markerGroups survey =
     (let k = coordKey str survey;
          created =
            (if map_of markerGroups k = None
             then AList.update k
                    \<lparr>markerGroup.coordinate = \<lparr>latitude = snd (coordinates (geometry survey)),
                                   longitude = fst (coordinates (geometry survey))\<rparr>,
                     surveys = []\<rparr> markerGroups
             else markerGroups)
      in AList.map_entry k (\<lambda>g. g\<lparr>surveys := surveys g @ [properties survey]\<rparr>) created)"

text \<open>The body of \<open>surveys.forEach\<close> and the loop itself.\<close>

definition forEach_body ::
  "('c \<Rightarrow> string) \<Rightarrow> (jsval \<times> nat) list \<times> (string \<times> 'c markerGroup) list \<Rightarrow> 'c feature
     \<Rightarrow> (jsval \<times> nat) list \<times> (string \<times> 'c markerGroup) list" where
  "forEach_body str acc survey =
     (countProject (fst acc) survey, groupSurvey str (snd acc) survey)"

definition aggregate ::
  "('c \<Rightarrow> string) \<Rightarrow> 'c feature list
     \<Rightarrow> (jsval \<times> nat) list \<times> (string \<times> 'c markerGroup) list" where
  "aggregate str svs = foldl (forEach_body str) ([], []) svs"

definition toDetail :: "properties \<Rightarrow> surveyDetail" where
  "toDetail survey =
     \<lparr>projectName = ProjectName survey, localityDetails = LocalityDetails survey,
      startDate = StartDate survey, endDate = EndDate survey,
      siteCode = SiteCode survey, precision = LocationPrecision survey\<rparr>"

definition toMarker :: "'c markerGroup \<Rightarrow> 'c surveyMarker" where
  "toMarker grp =
     \<lparr>markerGroup.coordinate = markerGroup.coordinate grp, surveys = surveys grp,
      surveyDetails = map toDetail (surveys grp)\<rparr>"

text \<open>\<open>Object.values(markerGroups).map(...)\<close>\<close>

definition surveyMarkers :: "('c \<Rightarrow> string) \<Rightarrow> 'c feature list \<Rightarrow> 'c surveyMarker list" where
  "surveyMarkers str svs = map (toMarker \<circ> snd) (snd (aggregate str svs))"

section \<open>Species variant (second variant of the file): fetchSurveys, fetchProjectsMetadata\<close>

text \<open>\<open>{...project, surveyCount: surveyCounts.get(project.Project.ProjectID) || 0}\<close>\<close>

definition annotate :: "(jsval \<times> nat) list \<Rightarrow> metadata \<Rightarrow> annotated" where
  "annotate surveyCounts m =
     \<lparr>metadata.Project = metadata.Project m, LastLoadDate = LastLoadDate m,
      surveyCount =
        (case map_of surveyCounts (project.ProjectID (metadata.Project m)) of
           None \<Rightarrow> 0 | Some n \<Rightarrow> n)\<rparr>"

text \<open>
  \<open>combinedMetadata\<close>. When the field is absent, \<open>Array.isArray\<close> is false and the second
  branch reads \<open>metadata.Project\<close> of \<open>undefined\<close>, which throws a TypeError.
\<close>

definition combineMetadata :: "(jsval \<times> nat) list \<Rightarrow> metadata jsfield \<Rightarrow> exn + annotated list" where
  "combineMetadata surveyCounts md =
     (case md of
        Array ms \<Rightarrow> Inr (map (annotate surveyCounts) ms)
      | Single m \<Rightarrow> Inr [annotate surveyCounts m]
      | Absent \<Rightarrow> Inl TypeError)"

definition fetchProjectsMetadata ::
  "('c request \<Rightarrow> 'c data option) \<Rightarrow> jsval list \<Rightarrow> (jsval \<times> nat) list
     \<Rightarrow> ('c, annotated, 'k) app \<Rightarrow> ('c, annotated, 'k) app" where
  "fetchProjectsMetadata svc projectIDs surveyCounts st =
     (case axios_get svc (getprojectsmetadatabyid projectIDs) st of
        (st1, None) \<Rightarrow>
          st1\<lparr>console := console st1 @ [(''Error fetching project metadata:'', TransportFailure)]\<rparr>
      | (st1, Some d) \<Rightarrow>
          (case combineMetadata surveyCounts (ProjectMetadata d) of
             Inl e \<Rightarrow> st1\<lparr>console := console st1 @ [(''Error fetching project metadata:'', e)]\<rparr>
           | Inr combinedMetadata \<Rightarrow> st1\<lparr>projectMetadata := combinedMetadata\<rparr>))"

text \<open>The \<open>catch\<close> and \<open>finally\<close> blocks of fetchSurveys.\<close>

definition fetchSurveys_catch :: "exn \<Rightarrow> ('c, 'm, 'k) app \<Rightarrow> ('c, 'm, 'k) app" where
  "fetchSurveys_catch e st =
     st\<lparr>console := console st @ [(''Error fetching survey data:'', e)],
        errorMsg := Some ''An error occurred while fetching survey data. Please try again.''\<rparr>"

definition fetchSurveys_finally :: "('c, 'm, 'k) app \<Rightarrow> ('c, 'm, 'k) app" where
  "fetchSurveys_finally st = st\<lparr>loadingProjects := False\<rparr>"

text \<open>
  fetchSurveys. The call of fetchProjectsMetadata is the last statement of the \<open>try\<close>
  block and is not awaited: its request is issued, the \<open>finally\<close> block runs, and the
  reply is handled afterwards by fetchProjectsMetadata's own \<open>try\<close>/\<open>catch\<close>. The two write
  different state variables, so the model runs \<open>finally\<close> first and fetchProjectsMetadata
  as a whole after it. Reading \<open>location.latitude\<close> while \<open>location\<close> is still \<open>null\<close>
  throws a TypeError inside the \<open>try\<close> block.
\<close>

definition fetchSurveys ::
  "('c \<Rightarrow> string) \<Rightarrow> ('c request \<Rightarrow> 'c data option) \<Rightarrow> jsval
     \<Rightarrow> ('c, annotated, 'c surveyMarker) app \<Rightarrow> ('c, annotated, 'c surveyMarker) app" where
  "fetchSurveys str svc taxonId st =
     (if \<not> truthy taxonId then st\<lparr>alerts := alerts st @ [''No species selected.'']\<rparr>
      else
        let st0 = st\<lparr>loadingProjects := True, errorMsg := None, surveyData := [], markers := []\<rparr>
        in case location st0 of
             None \<Rightarrow> fetchSurveys_finally (fetchSurveys_catch TypeError st0)
           | Some loc \<Rightarrow>
              (case axios_get svc (getsurveysbyspecies taxonId loc (radius st0)) st0 of
                 (st1, None) \<Rightarrow> fetchSurveys_finally (fetchSurveys_catch TransportFailure st1)
               | (st1, Some d) \<Rightarrow>
                  let svs = (case features d of None \<Rightarrow> [] | Some fs \<Rightarrow> fs) in
                  if length svs = 0
                  then fetchSurveys_finally
                         (st1\<lparr>errorMsg :=
                                Some ''No surveys found for the selected radius. Try increasing the radius.'',
                              projectMetadata := [], markers := []\<rparr>)
                  else
                    let projectIDs = fst (aggregate str svs);
                        st2 = st1\<lparr>markers := surveyMarkers str svs\<rparr>
                    in fetchProjectsMetadata svc (map fst projectIDs) projectIDs
                         (fetchSurveys_finally st2)))"

section \<open>Keyword-and-area variant (third variant of the file): fetchProjects\<close>

text \<open>
  \<open>(a, b) => new Date(b.LastLoadDate) - new Date(a.LastLoadDate)\<close>. The parameter \<open>time\<close>
  is the time value of \<open>new Date(v)\<close> in milliseconds, \<open>None\<close> for an invalid date, whose
  difference with anything is \<open>NaN\<close>.
\<close>

definition compareLastLoadDate ::
  "(jsval \<Rightarrow> int option) \<Rightarrow> metadata \<Rightarrow> metadata \<Rightarrow> int option" where
  "compareLastLoadDate time a b =
     (case (time (LastLoadDate b), time (LastLoadDate a)) of
        (Some tb, Some ta) \<Rightarrow> Some (tb - ta)
      | _ \<Rightarrow> None)"

definition noResultsForKeyword :: "string \<Rightarrow> string" where
  "noResultsForKeyword kw = ''No results found for keyword: '' @ kw"

definition noResultsInArea :: "('c \<Rightarrow> string) \<Rightarrow> string \<Rightarrow> 'c \<Rightarrow> string" where
  "noResultsInArea str kw r =
     ''No results found for keyword: '' @ kw @ '' within '' @ str r
       @ '' meters. Try increasing the radius.''"

definition genericError :: string where
  "genericError = ''An error occurred while fetching data. Please try again.''"

text \<open>
  The \<open>try\<close> block in three pieces, one per numbered step of the source. Each returns the
  state at the point where the block is left and the exception thrown, if any.
\<close>

definition v3_step3 ::
  "(jsval \<Rightarrow> int option) \<Rightarrow> 'c data \<Rightarrow> ('c, metadata, 'k) app
     \<Rightarrow> ('c, metadata, 'k) app \<times> exn option" where
  "v3_step3 time api3 st =
     (case ProjectMetadata api3 of
        Absent \<Rightarrow> (st\<lparr>errorMsg := Some ''No metadata found for projects.'', loading := False\<rparr>, None)
      | Single m \<Rightarrow> (st\<lparr>projectMetadata := [m], loading := False\<rparr>, None)
      | Array ms \<Rightarrow> (st\<lparr>projectMetadata := js_sort (compareLastLoadDate time) ms\<rparr>, None))"

definition v3_step2 ::
  "('c \<Rightarrow> string) \<Rightarrow> (jsval \<Rightarrow> int option) \<Rightarrow> ('c request \<Rightarrow> 'c data option) \<Rightarrow> jsval list
     \<Rightarrow> ('c, metadata, 'k) app \<Rightarrow> ('c, metadata, 'k) app \<times> exn option" where
  "v3_step2 str time svc projectIDs st =
     (case location st of
        None \<Rightarrow> (st, Some TypeError)
      | Some loc \<Rightarrow>
         (case axios_get svc (getprojects loc (radius st)) st of
            (st1, None) \<Rightarrow> (st1, Some TransportFailure)
          | (st1, Some api2) \<Rightarrow>
             let filteredProjects =
                   (case data.Project api2 of
                      None \<Rightarrow> []
                    | Some ps \<Rightarrow> filter (\<lambda>p. project.ProjectID p \<in> set projectIDs) ps);
                 st2 = st1\<lparr>areaProjectCount := length filteredProjects\<rparr>
             in if length filteredProjects = 0
                then (st2\<lparr>errorMsg := Some (noResultsInArea str (keyword st) (radius st)),
                          loading := False\<rparr>, None)
                else
                  let filteredProjectIDs = map project.ProjectID filteredProjects in
                  (case axios_get svc (getprojectsmetadatabyid filteredProjectIDs) st2 of
                     (st3, None) \<Rightarrow> (st3, Some TransportFailure)
                   | (st3, Some api3) \<Rightarrow> v3_step3 time api3 st3)))"

definition v3_step1 ::
  "('c \<Rightarrow> string) \<Rightarrow> (jsval \<Rightarrow> int option) \<Rightarrow> ('c request \<Rightarrow> 'c data option)
     \<Rightarrow> ('c, metadata, 'k) app \<Rightarrow> ('c, metadata, 'k) app \<times> exn option" where
  "v3_step1 str time svc st =
     (case axios_get svc (projectsearch (keyword st)) st of
        (st1, None) \<Rightarrow> (st1, Some TransportFailure)
      | (st1, Some api1) \<Rightarrow>
         let projectIDs = projectIDsOf api1;
             st2 = st1\<lparr>keywordProjectCount := length projectIDs\<rparr>
         in if length projectIDs = 0
            then (st2\<lparr>errorMsg := Some (noResultsForKeyword (keyword st)), loading := False\<rparr>, None)
            else v3_step2 str time svc projectIDs st2)"

definition fetchProjects_v3 ::
  "('c \<Rightarrow> string) \<Rightarrow> (jsval \<Rightarrow> int option) \<Rightarrow> ('c request \<Rightarrow> 'c data option)
     \<Rightarrow> ('c, metadata, 'k) app \<Rightarrow> ('c, metadata, 'k) app" where
  "fetchProjects_v3 str time svc st =
     (case v3_step1 str time svc (st\<lparr>loading := True, errorMsg := None\<rparr>) of
        (st1, None) \<Rightarrow> st1\<lparr>loading := False\<rparr>
      | (st1, Some e) \<Rightarrow>
          st1\<lparr>console := console st1 @ [(''Error fetching project data:'', e)],
              errorMsg := Some genericError, loading := False\<rparr>)"

section \<open>Autofill variant (first variant of the file): fetchProjects\<close>

definition newMarker :: "'c feature \<Rightarrow> 'c marker" where
  "newMarker survey =
     \<lparr>marker_id = feature_id survey,
      marker.coordinate = \<lparr>latitude = snd (coordinates (geometry survey)),
                           longitude = fst (coordinates (geometry survey))\<rparr>,
      title = ProjectName (properties survey),
      description = LocalityDetails (properties survey)\<rparr>"

text \<open>
  \<open>Array.isArray(metadata) ? metadata : [metadata]\<close>. An element \<open>None\<close> of the result is
  \<open>undefined\<close>.
\<close>

definition normalize_v1 :: "metadata jsfield \<Rightarrow> metadata option list" where
  "normalize_v1 md =
     (case md of Array ms \<Rightarrow> map Some ms | Single m \<Rightarrow> [Some m] | Absent \<Rightarrow> [None])"

definition v1_try ::
  "('c request \<Rightarrow> 'c data option) \<Rightarrow> string \<Rightarrow> ('c, metadata option, 'c marker) app
     \<Rightarrow> ('c, metadata option, 'c marker) app \<times> exn option" where
  "v1_try svc selectedKeyword st =
     (case axios_get svc (projectsearch selectedKeyword) st of
        (st1, None) \<Rightarrow> (st1, Some TransportFailure)
      | (st1, Some api1) \<Rightarrow>
         let projectIDs = projectIDsOf api1 in
         if length projectIDs = 0
         then (st1\<lparr>errorMsg := Some (noResultsForKeyword selectedKeyword)\<rparr>, None)
         else
          (case location st1 of
             None \<Rightarrow> (st1, Some TypeError)
           | Some loc \<Rightarrow>
              (case axios_get svc (getsurveys projectIDs loc (radius st1)) st1 of
                 (st2, None) \<Rightarrow> (st2, Some TransportFailure)
               | (st2, Some api2) \<Rightarrow>
                  let svs = (case features api2 of None \<Rightarrow> [] | Some fs \<Rightarrow> fs);
                      st3 = st2\<lparr>markers := map newMarker svs\<rparr>
                  in (case axios_get svc (getprojectsmetadatabyid projectIDs) st3 of
                        (st4, None) \<Rightarrow> (st4, Some TransportFailure)
                      | (st4, Some api3) \<Rightarrow>
                          (st4\<lparr>projectMetadata := normalize_v1 (ProjectMetadata api3)\<rparr>, None)))))"

definition fetchProjects_v1 ::
  "('c request \<Rightarrow> 'c data option) \<Rightarrow> string \<Rightarrow> ('c, metadata option, 'c marker) app
     \<Rightarrow> ('c, metadata option, 'c marker) app" where
  "fetchProjects_v1 svc selectedKeyword st =
     (case v1_try svc selectedKeyword
             (st\<lparr>loadingProjects := True, errorMsg := None, projectMetadata := [], markers := []\<rparr>) of
        (st1, None) \<Rightarrow> st1\<lparr>loadingProjects := False\<rparr>
      | (st1, Some e) \<Rightarrow>
          st1\<lparr>console := console st1 @ [(''Error fetching projects:'', e)],
              errorMsg := Some genericError, loadingProjects := False\<rparr>)"

section \<open>Autocomplete\<close>

text \<open>
  fetchSuggestions suspends at its \<open>await\<close>, so each variant is split at that point:
  \<open>_start\<close> runs up to the request (and says whether one was issued), \<open>_finish\<close> runs
  when the reply arrives (\<open>None\<close>: the request was rejected). The parameter
  \<open>localeCompare\<close> is \<open>String.prototype.localeCompare\<close>, whose order depends on the
  engine's locale.
\<close>

definition fetchSuggestions_start ::
  "string \<Rightarrow> ('c, 'm, 'k) app \<Rightarrow> ('c, 'm, 'k) app \<times> 'c request option" where
  "fetchSuggestions_start input st =
     (if input = [] then (st, None)
      else (st\<lparr>loadingSuggestions := True, calls := calls st @ [speciessearch input]\<rparr>,
            Some (speciessearch input)))"

text \<open>Autofill variant: \<open>setSuggestions(response.data.Species || [])\<close>.\<close>

definition fetchSuggestions_v1_finish ::
  "'c data option \<Rightarrow> ('c, 'm, 'k) app \<Rightarrow> ('c, 'm, 'k) app" where
  "fetchSuggestions_v1_finish reply st =
     (case reply of
        None \<Rightarrow>
          st\<lparr>console := console st @ [(''Error fetching suggestions:'', TransportFailure)],
             loadingSuggestions := False\<rparr>
      | Some d \<Rightarrow>
          st\<lparr>suggestions := (case Species d of None \<Rightarrow> [] | Some sp \<Rightarrow> sp),
             loadingSuggestions := False\<rparr>)"

definition fetchSuggestions_v1 ::
  "('c request \<Rightarrow> 'c data option) \<Rightarrow> string \<Rightarrow> ('c, 'm, 'k) app \<Rightarrow> ('c, 'm, 'k) app" where
  "fetchSuggestions_v1 svc input st =
     (case fetchSuggestions_start input st of
        (st1, None) \<Rightarrow> st1
      | (st1, Some req) \<Rightarrow> fetchSuggestions_v1_finish (svc req) st1)"

text \<open>
  Species variant:
  \<open>species.sort((a, b) => a.ScientificName.localeCompare(b.ScientificName))\<close>.
\<close>

definition compareScientificName ::
  "(string \<Rightarrow> string \<Rightarrow> int) \<Rightarrow> species \<Rightarrow> species \<Rightarrow> int option" where
  "compareScientificName localeCompare a b =
     Some (localeCompare (ScientificName a) (ScientificName b))"

definition fetchSuggestions_v2_finish ::
  "(string \<Rightarrow> string \<Rightarrow> int) \<Rightarrow> 'c data option \<Rightarrow> ('c, 'm, 'k) app \<Rightarrow> ('c, 'm, 'k) app" where
  "fetchSuggestions_v2_finish localeCompare reply st =
     (case reply of
        None \<Rightarrow>
          st\<lparr>console := console st @ [(''Error fetching suggestions:'', TransportFailure)],
             loadingSuggestions := False\<rparr>
      | Some d \<Rightarrow>
          st\<lparr>suggestions :=
               js_sort (compareScientificName localeCompare)
                 (case Species d of None \<Rightarrow> [] | Some sp \<Rightarrow> sp),
             loadingSuggestions := False\<rparr>)"

definition fetchSuggestions_v2 ::
  "(string \<Rightarrow> string \<Rightarrow> int) \<Rightarrow> ('c request \<Rightarrow> 'c data option) \<Rightarrow> string
     \<Rightarrow> ('c, 'm, 'k) app \<Rightarrow> ('c, 'm, 'k) app" where
  "fetchSuggestions_v2 localeCompare svc input st =
     (case fetchSuggestions_start input st of
        (st1, None) \<Rightarrow> st1
      | (st1, Some req) \<Rightarrow> fetchSuggestions_v2_finish localeCompare (svc req) st1)"

text \<open>
  handleInputChange of the species variant, up to the request it issues. The parameter
  \<open>trim\<close> is \<open>String.prototype.trim\<close>, which strips the white space and the line
  terminators of Unicode from both ends of a text.
\<close>

definition handleInputChange_v2 ::
  "(string \<Rightarrow> string) \<Rightarrow> string \<Rightarrow> ('c, 'm, 'k) app \<Rightarrow> ('c, 'm, 'k) app" where
  "handleInputChange_v2 trim text st =
     (let st1 = st\<lparr>keyword := text\<rparr> in
      if trim text = [] then st1\<lparr>suggestions := [], isTypingKeyword := False\<rparr>
      else fst (fetchSuggestions_start text (st1\<lparr>isTypingKeyword := True\<rparr>)))"

text \<open>
  What happens to the species variant's component over time: a keystroke, or the arrival
  of the reply to an earlier request.
\<close>

datatype 'c event = Keystroke string | Reply "'c data option"

definition step_v2 ::
  "(string \<Rightarrow> string) \<Rightarrow> (string \<Rightarrow> string \<Rightarrow> int) \<Rightarrow> ('c, 'm, 'k) app \<Rightarrow> 'c event
     \<Rightarrow> ('c, 'm, 'k) app" where
  "step_v2 trim localeCompare st ev =
     (case ev of
        Keystroke text \<Rightarrow> handleInputChange_v2 trim text st
      | Reply r \<Rightarrow> fetchSuggestions_v2_finish localeCompare r st)"

definition run_v2 ::
  "(string \<Rightarrow> string) \<Rightarrow> (string \<Rightarrow> string \<Rightarrow> int) \<Rightarrow> 'c event list \<Rightarrow> ('c, 'm, 'k) app
     \<Rightarrow> ('c, 'm, 'k) app" where
  "run_v2 trim localeCompare evs st = foldl (step_v2 trim localeCompare) st evs"

section \<open>debounce (autofill variant)\<close>

text \<open>
  Timers in discrete time (milliseconds). \<open>pending\<close> holds the timers set and not yet
  run or cleared, as (id, due time, arguments of the callback); \<open>fired\<close> records each run
  of the debounced function \<open>func\<close> as (due time, arguments). \<open>timeoutId\<close> is the variable
  of the closure that \<open>debounce\<close> returns.
\<close>

record 'a timers =
  nextId :: nat
  pending :: "(nat \<times> nat \<times> 'a) list"
  fired :: "(nat \<times> 'a) list"

record 'a debounced = "'a timers" +
  timeoutId :: "nat option"

definition setTimeout ::
  "nat \<Rightarrow> nat \<Rightarrow> 'a \<Rightarrow> ('a, 'z) timers_scheme \<Rightarrow> nat \<times> ('a, 'z) timers_scheme" where
  "setTimeout now delay args T =
     (nextId T, T\<lparr>nextId := Suc (nextId T), pending := pending T @ [(nextId T, now + delay, args)]\<rparr>)"

definition clearTimeout :: "nat option \<Rightarrow> ('a, 'z) timers_scheme \<Rightarrow> ('a, 'z) timers_scheme" where
  "clearTimeout tid T = T\<lparr>pending := filter (\<lambda>(i, due, args). Some i \<noteq> tid) (pending T)\<rparr>"

text \<open>The event loop reaches time \<open>now\<close>: every timer due by then runs its callback.\<close>

definition run_timers :: "nat \<Rightarrow> ('a, 'z) timers_scheme \<Rightarrow> ('a, 'z) timers_scheme" where
  "run_timers now T =
     T\<lparr>fired := fired T @ map (\<lambda>(i, due, args). (due, args))
                            (filter (\<lambda>(i, due, args). due \<le> now) (pending T)),
       pending := filter (\<lambda>(i, due, args). \<not> due \<le> now) (pending T)\<rparr>"

text \<open>\<open>debounce(func, delay)\<close>: a fresh closure, \<open>timeoutId\<close> not yet assigned.\<close>

definition debounce :: "'a debounced" where
  "debounce = \<lparr>nextId = 0, pending = [], fired = [], timeoutId = None\<rparr>"

text \<open>
  The returned function, called with \<open>args\<close> at time \<open>now\<close>:
  \<open>clearTimeout(timeoutId); timeoutId = setTimeout(() => func(...args), delay)\<close>.
\<close>

definition debounced_call :: "nat \<Rightarrow> nat \<Rightarrow> 'a \<Rightarrow> 'a debounced \<Rightarrow> 'a debounced" where
  "debounced_call delay now args D =
     (case setTimeout now delay args (clearTimeout (timeoutId D) D) of
        (i, D1) \<Rightarrow> D1\<lparr>timeoutId := Some i\<rparr>)"

text \<open>A series of calls of one closure, each given with the time at which it is made.\<close>

definition call_at :: "nat \<Rightarrow> 'a debounced \<Rightarrow> nat \<times> 'a \<Rightarrow> 'a debounced" where
  "call_at delay D c = debounced_call delay (fst c) (snd c) (run_timers (fst c) D)"

definition run_calls :: "nat \<Rightarrow> (nat \<times> 'a) list \<Rightarrow> 'a debounced \<Rightarrow> 'a debounced" where
  "run_calls delay cs D = foldl (call_at delay) D cs"

text \<open>
  The autofill component calls \<open>debounce\<close> in the body of the component function, which
  runs again on every render. handleInputChange calls \<open>setKeyword(text)\<close> and then the
  debounced function of the current render; the change of \<open>keyword\<close> makes the component
  render again, and the handler of the new render holds a new closure, whose
  \<open>timeoutId\<close> is not yet assigned. The timers already set stay pending.
\<close>

definition rerender :: "'a debounced \<Rightarrow> 'a debounced" where
  "rerender D = D\<lparr>timeoutId := None\<rparr>"

definition keystroke_at :: "nat \<Rightarrow> 'a debounced \<Rightarrow> nat \<times> 'a \<Rightarrow> 'a debounced" where
  "keystroke_at delay D c = rerender (call_at delay D c)"

section \<open>Notions used to state the properties\<close>

text \<open>The number of survey points that carry a given project id.\<close>

definition occurrences :: "jsval \<Rightarrow> 'c feature list \<Rightarrow> nat" where
  "occurrences pid svs = length (filter (\<lambda>s. properties.ProjectID (properties s) = pid) svs)"

text \<open>The distinct elements of a list in the order of their first occurrence.\<close>

fun first_seen :: "'a list \<Rightarrow> 'a list" where
  "first_seen [] = []"
| "first_seen (x # xs) = x # filter (\<lambda>y. y \<noteq> x) (first_seen xs)"

text \<open>The coordinate key of a marker, built from its coordinate as \<open>coordKey\<close> builds it.\<close>

definition markerKey :: "('c \<Rightarrow> string) \<Rightarrow> ('c, 'z) markerGroup_scheme \<Rightarrow> string" where
  "markerKey str m =
     str (latitude (markerGroup.coordinate m)) @ '','' @ str (longitude (markerGroup.coordinate m))"

text \<open>The group that the survey points with coordinate key \<open>k\<close> form.\<close>

definition group_of :: "('c \<Rightarrow> string) \<Rightarrow> 'c feature list \<Rightarrow> string \<Rightarrow> 'c markerGroup" where
  "group_of str svs k =
     (let members = filter (\<lambda>s. coordKey str s = k) svs in
      \<lparr>markerGroup.coordinate = \<lparr>latitude = snd (coordinates (geometry (hd members))),
                                  longitude = fst (coordinates (geometry (hd members)))\<rparr>,
       surveys = map properties members\<rparr>)"

text \<open>Successive call times that are each less than \<open>delay\<close> after the one before.\<close>

fun within_window :: "nat \<Rightarrow> nat list \<Rightarrow> bool" where
  "within_window delay (t1 # t2 # ts) = (t1 \<le> t2 \<and> t2 < t1 + delay \<and> within_window delay (t2 # ts))"
| "within_window delay ts = True"

text \<open>The records that a single-or-array field holds.\<close>

definition recordsOf :: "'a jsfield \<Rightarrow> 'a list" where
  "recordsOf md = (case md of Absent \<Rightarrow> [] | Single m \<Rightarrow> [m] | Array ms \<Rightarrow> ms)"

text \<open>
  The order the spec names: strings compared lexicographically by character code.
\<close>

fun lex_le :: "string \<Rightarrow> string \<Rightarrow> bool" where
  "lex_le [] ys = True"
| "lex_le (x # xs) [] = False"
| "lex_le (x # xs) (y # ys) = ((of_char x :: nat) < of_char y \<or> (x = y \<and> lex_le xs ys))"

text \<open>A comparison function with that order, as one possible \<open>localeCompare\<close>.\<close>

definition codeUnitCompare :: "string \<Rightarrow> string \<Rightarrow> int" where
  "codeUnitCompare a b = (if a = b then 0 else if lex_le a b then - 1 else 1)"

section \<open>Example inputs\<close>

text \<open>
  In the examples a coordinate number is given by its decimal text, so that its
  conversion to a string is the identity.
\<close>

definition surveyAt :: "string \<Rightarrow> string \<Rightarrow> jsval \<Rightarrow> string \<Rightarrow> string feature" where
  "surveyAt lat lon pid site =
     \<lparr>feature_id = Undefined, geometry = \<lparr>coordinates = (lon, lat)\<rparr>,
      properties = \<lparr>properties.ProjectID = pid, ProjectName = Str ''Koala survey'',
                    LocalityDetails = Undefined, StartDate = Undefined, EndDate = Undefined,
                    SiteCode = Str site, LocationPrecision = Num 100\<rparr>\<rparr>"

definition example_surveys :: "string feature list" where
  "example_surveys =
     [surveyAt ''-16.9'' ''145.7'' (Num 55) ''s1'',
      surveyAt ''-16.9'' ''145.7'' (Num 55) ''s2'',
      surveyAt ''-17.2'' ''145.9'' (Num 55) ''s3'']"

definition initial :: "(string, 'm, 'k) app" where
  "initial =
     \<lparr>location = Some \<lparr>latitude = ''-16.9186'', longitude = ''145.7781''\<rparr>,
      keyword = ''Koala'', suggestions = [], loadingSuggestions = False, radius = ''6000'',
      surveyData = [], projectMetadata = [], loadingProjects = False, loading = False,
      errorMsg = None, markers = [], keywordProjectCount = 0, areaProjectCount = 0,
      isTypingKeyword = False, calls = [], console = [], alerts = []\<rparr>"

text \<open>A reply with every field absent, and a metadata record for a project id.\<close>

definition reply :: "'c data" where
  "reply = \<lparr>data.Project = None, features = None, ProjectMetadata = Absent, Species = None\<rparr>"

definition metadataOf :: "jsval \<Rightarrow> jsval \<Rightarrow> metadata" where
  "metadataOf pid loaded =
     \<lparr>metadata.Project = \<lparr>project.ProjectID = pid, Name = Undefined\<rparr>, LastLoadDate = loaded\<rparr>"

definition zero_id_survey :: "string feature list" where
  "zero_id_survey = [surveyAt ''-16.9'' ''145.7'' (Num 0) ''s1'']"

text \<open>
  A service for the species variant: three survey points of project 55 in the circle,
  and metadata records for project 55 and for a project 77 that no survey point carries.
\<close>

definition species_service :: "string request \<Rightarrow> string data option" where
  "species_service req =
     (case req of
        getsurveysbyspecies taxon loc r \<Rightarrow> Some (reply\<lparr>features := Some example_surveys\<rparr>)
      | getprojectsmetadatabyid ids \<Rightarrow>
          Some (reply\<lparr>ProjectMetadata :=
                        Array [metadataOf (Num 55) (Str ''2024-01-01''),
                               metadataOf (Num 77) (Str ''2023-06-30'')]\<rparr>)
      | _ \<Rightarrow> None)"

text \<open>The species service with a metadata reply that carries no ProjectMetadata field.\<close>

definition species_no_metadata_service :: "string request \<Rightarrow> string data option" where
  "species_no_metadata_service req =
     (case req of getprojectsmetadatabyid ids \<Rightarrow> Some reply | _ \<Rightarrow> species_service req)"

definition projectOf :: "jsval \<Rightarrow> project" where
  "projectOf pid = \<lparr>project.ProjectID = pid, Name = Undefined\<rparr>"

text \<open>
  The service of the spec's example: the keyword matches projects 101 and 102, the circle
  holds projects 7 and 101 and one survey point of project 101, and the metadata
  operation returns one record per requested id.
\<close>

definition koala_service :: "string request \<Rightarrow> string data option" where
  "koala_service req =
     (case req of
        projectsearch kw \<Rightarrow> Some (reply\<lparr>data.Project := Some [projectOf (Num 101), projectOf (Num 102)]\<rparr>)
      | getprojects loc r \<Rightarrow> Some (reply\<lparr>data.Project := Some [projectOf (Num 7), projectOf (Num 101)]\<rparr>)
      | getsurveys ids loc r \<Rightarrow> Some (reply\<lparr>features := Some [surveyAt ''-16.9'' ''145.7'' (Num 101) ''s1'']\<rparr>)
      | getprojectsmetadatabyid ids \<Rightarrow>
          Some (reply\<lparr>ProjectMetadata := Array (map (\<lambda>i. metadataOf i (Str ''2024-01-01'')) ids)\<rparr>)
      | _ \<Rightarrow> None)"

text \<open>The same service with the metadata operation returning a single object.\<close>

definition single_object_service :: "string request \<Rightarrow> string data option" where
  "single_object_service req =
     (case req of
        getprojectsmetadatabyid ids \<Rightarrow>
          Some (reply\<lparr>ProjectMetadata := Single (metadataOf (Num 101) (Str ''2024-01-01''))\<rparr>)
      | _ \<Rightarrow> koala_service req)"

text \<open>A service whose project search finds nothing.\<close>

definition nothing_service :: "string request \<Rightarrow> string data option" where
  "nothing_service req = (case req of projectsearch kw \<Rightarrow> Some reply | _ \<Rightarrow> None)"

text \<open>A service whose circle holds none of the projects the keyword matches.\<close>

definition elsewhere_service :: "string request \<Rightarrow> string data option" where
  "elsewhere_service req =
     (case req of
        projectsearch kw \<Rightarrow> Some (reply\<lparr>data.Project := Some [projectOf (Num 101), projectOf (Num 102)]\<rparr>)
      | getprojects loc r \<Rightarrow> Some (reply\<lparr>data.Project := Some [projectOf (Num 7)]\<rparr>)
      | _ \<Rightarrow> None)"

text \<open>The species service with the metadata operation failing in transport.\<close>

definition metadata_down_service :: "string request \<Rightarrow> string data option" where
  "metadata_down_service req =
     (case req of getprojectsmetadatabyid ids \<Rightarrow> None | _ \<Rightarrow> species_service req)"

text \<open>A service whose metadata reply carries no ProjectMetadata field.\<close>

definition no_metadata_service :: "string request \<Rightarrow> string data option" where
  "no_metadata_service req =
     (case req of getprojectsmetadatabyid ids \<Rightarrow> Some reply | _ \<Rightarrow> koala_service req)"

text \<open>\<open>new Date(n)\<close> for a number \<open>n\<close> has the time value \<open>n\<close>; other values are not used as dates here.\<close>

definition numberTime :: "jsval \<Rightarrow> int option" where
  "numberTime v = (case v of Num n \<Rightarrow> Some n | _ \<Rightarrow> None)"

text \<open>Four metadata records; projects 2 and 3 were loaded at the same time.\<close>

definition dated_metadata :: "metadata list" where
  "dated_metadata =
     [metadataOf (Num 1) (Num 10), metadataOf (Num 2) (Num 30),
      metadataOf (Num 3) (Num 30), metadataOf (Num 4) (Num 20)]"

text \<open>Four metadata records, the second with a LastLoadDate that is no date.\<close>

definition undated_metadata :: "metadata list" where
  "undated_metadata =
     [metadataOf (Num 1) (Num 10), metadataOf (Num 2) (Str ''not a date''),
      metadataOf (Num 3) (Num 30), metadataOf (Num 4) (Num 20)]"

text \<open>
  A service for the keyword-and-area variant in which keyword and circle both match the
  projects of the given records, and the metadata operation returns the records.
\<close>

definition dated_service :: "metadata list \<Rightarrow> string request \<Rightarrow> string data option" where
  "dated_service ms req =
     (case req of
        projectsearch kw \<Rightarrow> Some (reply\<lparr>data.Project := Some (map metadata.Project ms)\<rparr>)
      | getprojects loc r \<Rightarrow> Some (reply\<lparr>data.Project := Some (map metadata.Project ms)\<rparr>)
      | getprojectsmetadatabyid ids \<Rightarrow> Some (reply\<lparr>ProjectMetadata := Array ms\<rparr>)
      | _ \<Rightarrow> None)"

text \<open>
  An instance of \<open>trim\<close> for the examples, whose texts are ASCII: on such a text
  \<open>String.prototype.trim\<close> strips exactly these six characters from both ends.
\<close>

definition isAsciiSpace :: "char \<Rightarrow> bool" where
  "isAsciiSpace c = (c \<in> {CHR '' '', CHR 0x09, CHR 0x0A, CHR 0x0B, CHR 0x0C, CHR 0x0D})"

definition trim_ascii :: "string \<Rightarrow> string" where
  "trim_ascii text = rev (dropWhile isAsciiSpace (rev (dropWhile isAsciiSpace text)))"

text \<open>The state after an earlier search that stored the record of a project 999.\<close>

definition after_earlier_search :: "(string, metadata, 'k) app" where
  "after_earlier_search = initial\<lparr>projectMetadata := [metadataOf (Num 999) (Num 5)]\<rparr>"

definition speciesOf :: "string \<Rightarrow> species" where
  "speciesOf name = \<lparr>ScientificName = name, SpeciesName = Str name, TaxonID = Undefined\<rparr>"

text \<open>A species search that answers with two species, not in alphabetical order.\<close>

definition suggestion_service :: "string request \<Rightarrow> string data option" where
  "suggestion_service req =
     (case req of
        speciessearch input \<Rightarrow>
          Some (reply\<lparr>Species := Some [speciesOf ''Phascolarctos cinereus'', speciesOf ''Dacelo novaeguineae'']\<rparr>)
      | _ \<Rightarrow> None)"

text \<open>Replies to the species searches for "k" and for "ko".\<close>

definition reply_k :: "string data" where
  "reply_k = reply\<lparr>Species := Some [speciesOf ''Kerivoula papuensis'']\<rparr>"

definition reply_ko :: "string data" where
  "reply_ko = reply\<lparr>Species := Some [speciesOf ''Kogia breviceps'']\<rparr>"

section \<open>Properties\<close>

subsection \<open>Unfolding\<close>

lemmas example_defs = initial_def reply_def metadataOf_def projectOf_def surveyAt_def
  example_surveys_def species_service_def koala_service_def nothing_service_def
  elsewhere_service_def metadata_down_service_def no_metadata_service_def
  species_no_metadata_service_def dated_service_def dated_metadata_def undated_metadata_def
  numberTime_def after_earlier_search_def single_object_service_def

lemmas pipeline_defs = axios_get_def projectIDsOf_def
  fetchSurveys_def fetchSurveys_catch_def fetchSurveys_finally_def fetchProjectsMetadata_def
  combineMetadata_def annotate_def
  fetchProjects_v3_def v3_step1_def v3_step2_def v3_step3_def
  fetchProjects_v1_def v1_try_def normalize_v1_def newMarker_def
  noResultsForKeyword_def noResultsInArea_def genericError_def

lemmas grouping_defs = surveyMarkers_def aggregate_def forEach_body_def countProject_def
  groupSurvey_def coordKey_def toMarker_def toDetail_def markerKey_def example_surveys_def
  surveyAt_def

subsection \<open>The loop of fetchSurveys\<close>

lemma aggregate_fst: "fst (foldl (forEach_body str) acc svs) = foldl countProject (fst acc) svs"
  by (induction svs arbitrary: acc) (simp_all add: forEach_body_def)

lemma aggregate_snd: "snd (foldl (forEach_body str) acc svs) = foldl (groupSurvey str) (snd acc) svs"
  by (induction svs arbitrary: acc) (simp_all add: forEach_body_def)

lemma map_of_countProject:
  "map_of (countProject m s) pid =
     (if truthy pid \<and> properties.ProjectID (properties s) = pid
      then Some ((case map_of m pid of None \<Rightarrow> 0 | Some n \<Rightarrow> n) + 1)
      else map_of m pid)"
  by (auto simp: countProject_def Let_def update_conv')

lemma map_of_foldl_countProject:
  "map_of (foldl countProject m svs) pid =
     (if truthy pid \<and> 0 < occurrences pid svs
      then Some ((case map_of m pid of None \<Rightarrow> 0 | Some n \<Rightarrow> n) + occurrences pid svs)
      else map_of m pid)"
proof (induction svs arbitrary: m)
  case Nil
  show ?case by (simp add: occurrences_def)
next
  case (Cons s svs)
  show ?case
    by (simp add: Cons.IH map_of_countProject occurrences_def split: option.splits)
qed

lemma counts_aggregate:
  "map_of (fst (aggregate str svs)) pid =
     (if truthy pid \<and> 0 < occurrences pid svs then Some (occurrences pid svs) else None)"
  by (simp add: aggregate_def aggregate_fst map_of_foldl_countProject)

lemma set_first_seen: "set (first_seen xs) = set xs"
  by (induction xs) auto

lemma distinct_first_seen: "distinct (first_seen xs)"
  by (induction xs) (auto simp: set_first_seen)

lemma first_seen_snoc:
  "first_seen (xs @ [a]) = (if a \<in> set xs then first_seen xs else first_seen xs @ [a])"
  by (induction xs) (auto simp: set_first_seen)

lemma length_first_seen: "length (first_seen xs) = card (set xs)"
  by (metis distinct_card distinct_first_seen set_first_seen)

lemma update_fresh: "k \<notin> fst ` set al \<Longrightarrow> AList.update k v al = al @ [(k, v)]"
  by (induction al) auto

lemma map_entry_last: "k \<notin> fst ` set al \<Longrightarrow> AList.map_entry k f (al @ [(k, v)]) = al @ [(k, f v)]"
  by (induction al) auto

lemma map_entry_tabulate:
  "distinct ks \<Longrightarrow>
   AList.map_entry k f (map (\<lambda>j. (j, g j)) ks) = map (\<lambda>j. (j, if j = k then f (g j) else g j)) ks"
  by (induction ks) auto

lemma map_of_tabulate:
  "map_of (map (\<lambda>j. (j, g j)) ks) k = (if k \<in> set ks then Some (g k) else None)"
  by (induction ks) auto

lemma group_of_snoc_other:
  "j \<noteq> coordKey str x \<Longrightarrow> group_of str (xs @ [x]) j = group_of str xs j"
  by (simp add: group_of_def)

lemma group_of_snoc_seen:
  assumes "coordKey str x \<in> coordKey str ` set xs"
  shows "group_of str (xs @ [x]) (coordKey str x) =
         (group_of str xs (coordKey str x))
           \<lparr>surveys := surveys (group_of str xs (coordKey str x)) @ [properties x]\<rparr>"
proof -
  from assms have "filter (\<lambda>s. coordKey str s = coordKey str x) xs \<noteq> []"
    by (auto simp: filter_empty_conv)
  then show ?thesis
    by (simp add: group_of_def Let_def)
qed

lemma group_of_snoc_fresh:
  assumes "coordKey str x \<notin> coordKey str ` set xs"
  shows "group_of str (xs @ [x]) (coordKey str x) =
         \<lparr>markerGroup.coordinate = \<lparr>latitude = snd (coordinates (geometry x)),
                         longitude = fst (coordinates (geometry x))\<rparr>,
          surveys = [properties x]\<rparr>"
proof -
  have "\<And>s. s \<in> set xs \<Longrightarrow> coordKey str s \<noteq> coordKey str x"
    using assms by (metis imageI)
  then have "filter (\<lambda>s. coordKey str s = coordKey str x) xs = []"
    by (simp add: filter_empty_conv)
  then show ?thesis
    by (simp add: group_of_def Let_def)
qed

lemma foldl_groupSurvey:
  "foldl (groupSurvey str) [] svs =
     map (\<lambda>k. (k, group_of str svs k)) (first_seen (map (coordKey str) svs))"
proof (induction svs rule: rev_induct)
  case Nil
  show ?case by simp
next
  case (snoc x xs)
  let ?k = "coordKey str x"
  let ?ks = "first_seen (map (coordKey str) xs)"
  let ?al = "map (\<lambda>k. (k, group_of str xs k)) ?ks"
  let ?push = "\<lambda>g::'a markerGroup. g\<lparr>surveys := surveys g @ [properties x]\<rparr>"
  have fold: "foldl (groupSurvey str) [] (xs @ [x]) = groupSurvey str ?al x"
    by (simp add: snoc.IH)
  show ?case
  proof (cases "?k \<in> coordKey str ` set xs")
    case True
    then have mem: "?k \<in> set ?ks" by (simp add: set_first_seen)
    have "groupSurvey str ?al x = AList.map_entry ?k ?push ?al"
      using mem by (simp add: groupSurvey_def Let_def map_of_tabulate)
    also have "\<dots> = map (\<lambda>j. (j, if j = ?k then ?push (group_of str xs j) else group_of str xs j)) ?ks"
      by (rule map_entry_tabulate) (rule distinct_first_seen)
    also have "\<dots> = map (\<lambda>j. (j, group_of str (xs @ [x]) j)) ?ks"
      using True by (auto simp: group_of_snoc_other group_of_snoc_seen)
    finally have step: "groupSurvey str ?al x = map (\<lambda>j. (j, group_of str (xs @ [x]) j)) ?ks" .
    have "first_seen (map (coordKey str) (xs @ [x])) = ?ks"
      using True by (simp add: first_seen_snoc)
    with step fold show ?thesis by simp
  next
    case False
    then have nmem: "?k \<notin> set ?ks" by (simp add: set_first_seen)
    then have fresh: "?k \<notin> fst ` set ?al" by (auto simp: image_iff)
    let ?new = "\<lparr>markerGroup.coordinate = \<lparr>latitude = snd (coordinates (geometry x)),
                                  longitude = fst (coordinates (geometry x))\<rparr>,
                  surveys = []\<rparr>"
    have "groupSurvey str ?al x = AList.map_entry ?k ?push (AList.update ?k ?new ?al)"
      using nmem by (simp add: groupSurvey_def Let_def map_of_tabulate)
    also have "\<dots> = ?al @ [(?k, ?push ?new)]"
      using fresh by (simp add: update_fresh map_entry_last)
    finally have step: "groupSurvey str ?al x = ?al @ [(?k, ?push ?new)]" .
    have "\<And>j. j \<in> set ?ks \<Longrightarrow> group_of str (xs @ [x]) j = group_of str xs j"
      using nmem by (metis group_of_snoc_other)
    then have old: "?al = map (\<lambda>j. (j, group_of str (xs @ [x]) j)) ?ks"
      by simp
    have new: "?push ?new = group_of str (xs @ [x]) ?k"
      using False by (simp add: group_of_snoc_fresh)
    have "groupSurvey str ?al x = map (\<lambda>j. (j, group_of str (xs @ [x]) j)) (?ks @ [?k])"
      unfolding step new by (subst old) simp
    moreover have "first_seen (map (coordKey str) (xs @ [x])) = ?ks @ [?k]"
      using False by (simp add: first_seen_snoc)
    ultimately show ?thesis using fold by simp
  qed
qed

lemma surveyMarkers_eq:
  "surveyMarkers str svs =
     map (\<lambda>k. toMarker (group_of str svs k)) (first_seen (map (coordKey str) svs))"
  by (simp add: surveyMarkers_def aggregate_def aggregate_snd foldl_groupSurvey comp_def)

lemma markerKey_group_of:
  assumes "k \<in> coordKey str ` set svs"
  shows "markerKey str (toMarker (group_of str svs k)) = k"
proof -
  let ?members = "filter (\<lambda>s. coordKey str s = k) svs"
  from assms have "?members \<noteq> []" by (auto simp: filter_empty_conv)
  then have "hd ?members \<in> set ?members" by (rule hd_in_set)
  then have "coordKey str (hd ?members) = k" by simp
  then show ?thesis
    by (simp add: markerKey_def toMarker_def group_of_def Let_def coordKey_def)
qed

text \<open>
  C3. For N survey points with K distinct coordinate keys, grouping yields exactly K
  markers; their keys are the distinct keys in first-seen order; and each marker's
  survey details are those of exactly the points whose key is the marker's key, in
  input order.
\<close>

theorem grouping_by_coordinate_key:
  "length (surveyMarkers str svs) = card (coordKey str ` set svs)
   \<and> map (markerKey str) (surveyMarkers str svs) = first_seen (map (coordKey str) svs)
   \<and> (\<forall>m \<in> set (surveyMarkers str svs).
        surveyDetails m =
          map (toDetail \<circ> properties) (filter (\<lambda>s. coordKey str s = markerKey str m) svs))"
proof (intro conjI ballI)
  show "length (surveyMarkers str svs) = card (coordKey str ` set svs)"
    by (simp add: surveyMarkers_eq length_first_seen)
next
  have "\<And>k. k \<in> set (first_seen (map (coordKey str) svs))
          \<Longrightarrow> markerKey str (toMarker (group_of str svs k)) = k"
    by (simp add: set_first_seen markerKey_group_of)
  then show "map (markerKey str) (surveyMarkers str svs) = first_seen (map (coordKey str) svs)"
    by (simp add: surveyMarkers_eq map_idI)
next
  fix m assume "m \<in> set (surveyMarkers str svs)"
  then obtain k where k: "k \<in> coordKey str ` set svs" and m: "m = toMarker (group_of str svs k)"
    by (auto simp: surveyMarkers_eq set_first_seen)
  have "markerKey str m = k" using k m by (simp add: markerKey_group_of)
  then show "surveyDetails m =
          map (toDetail \<circ> properties) (filter (\<lambda>s. coordKey str s = markerKey str m) svs)"
    by (simp add: m toMarker_def group_of_def Let_def)
qed

theorem grouping_by_coordinate_key_witness:
  "card (coordKey (\<lambda>c. c) ` set example_surveys) = 2
   \<and> hd (surveyMarkers (\<lambda>c. c) example_surveys) \<in> set (surveyMarkers (\<lambda>c. c) example_surveys)
   \<and> map siteCode (surveyDetails (hd (surveyMarkers (\<lambda>c. c) example_surveys)))
        = [Str ''s1'', Str ''s2'']"
proof -
  let ?ms = "surveyMarkers (\<lambda>c. c) example_surveys"
  note C3 = grouping_by_coordinate_key [of "\<lambda>c. c" example_surveys]
  have len: "length ?ms = 2"
    by (simp add: grouping_defs)
  have mem: "hd ?ms \<in> set ?ms"
    by (simp add: grouping_defs)
  have key: "markerKey (\<lambda>c. c) (hd ?ms) = ''-16.9,145.7''"
    by (simp add: grouping_defs)
  from C3 len have "card (coordKey (\<lambda>c. c) ` set example_surveys) = 2"
    by simp
  moreover from C3 mem have "surveyDetails (hd ?ms) =
      map (toDetail \<circ> properties)
        (filter (\<lambda>s. coordKey (\<lambda>c. c) s = markerKey (\<lambda>c. c) (hd ?ms)) example_surveys)"
    by blast
  then have "map siteCode (surveyDetails (hd ?ms)) = [Str ''s1'', Str ''s2'']"
    unfolding key by (simp add: example_surveys_def surveyAt_def coordKey_def toDetail_def)
  ultimately show ?thesis using mem by simp
qed

subsection \<open>Metadata annotation\<close>

lemma combineMetadata_present:
  "md \<noteq> Absent \<Longrightarrow> combineMetadata counts md = Inr (map (annotate counts) (recordsOf md))"
  by (cases md) (simp_all add: combineMetadata_def recordsOf_def)

subsection \<open>Survey counts\<close>

text \<open>
  C2, counterexample. A survey point whose ProjectID is falsy (here the number 0) is
  skipped by the guard
  \<open>if (projectID)\<close>: the count mapping has no entry for it and the metadata record of
  that project is annotated with 0, although one survey point carries the id.
\<close>

theorem survey_count_zero_id_counterexample:
  "occurrences (Num 0) zero_id_survey = 1
   \<and> map_of (fst (aggregate (\<lambda>c. c) zero_id_survey)) (Num 0) = None
   \<and> surveyCount (annotate (fst (aggregate (\<lambda>c. c) zero_id_survey)) (metadataOf (Num 0) Undefined)) = 0"
  by (simp add: occurrences_def zero_id_survey_def surveyAt_def aggregate_def forEach_body_def
      countProject_def annotate_def metadataOf_def)

lemma annotate_aggregate:
  "annotate (fst (aggregate str svs)) m =
     \<lparr>metadata.Project = metadata.Project m, LastLoadDate = LastLoadDate m,
      surveyCount =
        (if truthy (project.ProjectID (metadata.Project m))
         then occurrences (project.ProjectID (metadata.Project m)) svs else 0)\<rparr>"
  by (simp add: annotate_def counts_aggregate)

lemma fetchSurveys_success:
  assumes "truthy taxonId" and "location st = Some loc"
    and "svc (getsurveysbyspecies taxonId loc (radius st)) = Some d"
    and "features d = Some svs" and "svs \<noteq> []"
  shows "fetchSurveys str svc taxonId st =
           fetchProjectsMetadata svc (map fst (fst (aggregate str svs))) (fst (aggregate str svs))
             (st\<lparr>errorMsg := None, surveyData := [],
                 calls := calls st @ [getsurveysbyspecies taxonId loc (radius st)],
                 markers := surveyMarkers str svs, loadingProjects := False\<rparr>)"
  using assms
  by (simp add: fetchSurveys_def axios_get_def fetchSurveys_finally_def Let_def)

lemma fetchSurveys_stored:
  assumes "truthy taxonId" and "location st = Some loc"
    and "svc (getsurveysbyspecies taxonId loc (radius st)) = Some d"
    and "features d = Some svs" and "svs \<noteq> []"
    and "svc (getprojectsmetadatabyid (map fst (fst (aggregate str svs)))) = Some d'"
    and "ProjectMetadata d' \<noteq> Absent"
  shows "projectMetadata (fetchSurveys str svc taxonId st)
           = map (annotate (fst (aggregate str svs))) (recordsOf (ProjectMetadata d'))"
proof -
  have "fetchSurveys str svc taxonId st =
           fetchProjectsMetadata svc (map fst (fst (aggregate str svs))) (fst (aggregate str svs))
             (st\<lparr>errorMsg := None, surveyData := [],
                 calls := calls st @ [getsurveysbyspecies taxonId loc (radius st)],
                 markers := surveyMarkers str svs, loadingProjects := False\<rparr>)"
    using assms(1-5) by (rule fetchSurveys_success)
  with assms(6,7) show ?thesis
    by (simp add: fetchProjectsMetadata_def axios_get_def combineMetadata_present)
qed

text \<open>
  C2 (amended). The count mapping of stage 3 maps every truthy project id that occurs
  among the survey points to the number of points carrying it, and has no entry for any
  other id. After a species search that reaches the metadata reply, the stored list
  consists of the reply's metadata records, all of them and in the reply's order, each
  with its fields unchanged and with surveyCount equal to the number of survey points
  carrying its project id when that id is truthy, and 0 when the id is falsy; a truthy
  id that no survey point carries is absent from the mapping and gets 0.
\<close>

theorem survey_counts:
  "map_of (fst (aggregate str svs)) pid =
     (if truthy pid \<and> 0 < occurrences pid svs then Some (occurrences pid svs) else None)
   \<and> (truthy taxonId \<and> location st = Some loc
        \<and> svc (getsurveysbyspecies taxonId loc (radius st)) = Some d
        \<and> features d = Some svs \<and> svs \<noteq> []
        \<and> svc (getprojectsmetadatabyid (map fst (fst (aggregate str svs)))) = Some d'
        \<and> ProjectMetadata d' \<noteq> Absent
      \<longrightarrow> projectMetadata (fetchSurveys str svc taxonId st) =
            map (\<lambda>m. \<lparr>metadata.Project = metadata.Project m, LastLoadDate = LastLoadDate m,
                       surveyCount =
                         (if truthy (project.ProjectID (metadata.Project m))
                          then occurrences (project.ProjectID (metadata.Project m)) svs
                          else 0)\<rparr>)
              (recordsOf (ProjectMetadata d')))"
proof (intro conjI impI)
  show "map_of (fst (aggregate str svs)) pid =
     (if truthy pid \<and> 0 < occurrences pid svs then Some (occurrences pid svs) else None)"
    by (rule counts_aggregate)
next
  assume "truthy taxonId \<and> location st = Some loc
        \<and> svc (getsurveysbyspecies taxonId loc (radius st)) = Some d
        \<and> features d = Some svs \<and> svs \<noteq> []
        \<and> svc (getprojectsmetadatabyid (map fst (fst (aggregate str svs)))) = Some d'
        \<and> ProjectMetadata d' \<noteq> Absent"
  then have "projectMetadata (fetchSurveys str svc taxonId st)
           = map (annotate (fst (aggregate str svs))) (recordsOf (ProjectMetadata d'))"
    using fetchSurveys_stored [where str = str and svc = svc and taxonId = taxonId and st = st
        and loc = loc and d = d and svs = svs and d' = d']
    by blast
  then show "projectMetadata (fetchSurveys str svc taxonId st) =
            map (\<lambda>m. \<lparr>metadata.Project = metadata.Project m, LastLoadDate = LastLoadDate m,
                       surveyCount =
                         (if truthy (project.ProjectID (metadata.Project m))
                          then occurrences (project.ProjectID (metadata.Project m)) svs
                          else 0)\<rparr>)
              (recordsOf (ProjectMetadata d'))"
    by (simp add: annotate_aggregate)
qed

theorem survey_counts_witness:
  "map_of (fst (aggregate (\<lambda>c. c) example_surveys)) (Num 55) = Some 3
   \<and> map_of (fst (aggregate (\<lambda>c. c) example_surveys)) (Num 77) = None
   \<and> projectMetadata (fetchSurveys (\<lambda>c. c) species_service (Num 860) initial)
       = [\<lparr>metadata.Project = \<lparr>project.ProjectID = Num 55, Name = Undefined\<rparr>,
           LastLoadDate = Str ''2024-01-01'', surveyCount = 3\<rparr>,
          \<lparr>metadata.Project = \<lparr>project.ProjectID = Num 77, Name = Undefined\<rparr>,
           LastLoadDate = Str ''2023-06-30'', surveyCount = 0\<rparr>]"
proof -
  let ?st = "initial :: (string, annotated, string surveyMarker) app"
  let ?loc = "\<lparr>latitude = ''-16.9186'', longitude = ''145.7781''\<rparr>"
  let ?d = "reply\<lparr>features := Some example_surveys\<rparr> :: string data"
  let ?d' = "reply\<lparr>ProjectMetadata :=
                      Array [metadataOf (Num 55) (Str ''2024-01-01''),
                             metadataOf (Num 77) (Str ''2023-06-30'')]\<rparr> :: string data"
  note C2 = survey_counts [where str = "\<lambda>c. c" and svs = example_surveys and taxonId = "Num 860"
      and st = ?st and loc = ?loc and svc = species_service and d = ?d and d' = ?d']
  have occ: "occurrences (Num 55) example_surveys = 3" "occurrences (Num 77) example_surveys = 0"
    by (simp_all add: occurrences_def example_defs)
  have pre: "truthy (Num 860) \<and> location ?st = Some ?loc
        \<and> species_service (getsurveysbyspecies (Num 860) ?loc (radius ?st)) = Some ?d
        \<and> features ?d = Some example_surveys \<and> example_surveys \<noteq> []
        \<and> species_service (getprojectsmetadatabyid (map fst (fst (aggregate (\<lambda>c. c) example_surveys)))) = Some ?d'
        \<and> ProjectMetadata ?d' \<noteq> Absent"
    by (simp add: example_defs)
  from C2 [where pid = "Num 55"] have 1: "map_of (fst (aggregate (\<lambda>c. c) example_surveys)) (Num 55) = Some 3"
    by (simp add: occ)
  from C2 [where pid = "Num 77"] have 2: "map_of (fst (aggregate (\<lambda>c. c) example_surveys)) (Num 77) = None"
    by (simp add: occ)
  from C2 [where pid = "Num 55"] pre
  have "projectMetadata (fetchSurveys (\<lambda>c. c) species_service (Num 860) ?st) =
            map (\<lambda>m. \<lparr>metadata.Project = metadata.Project m, LastLoadDate = LastLoadDate m,
                       surveyCount =
                         (if truthy (project.ProjectID (metadata.Project m))
                          then occurrences (project.ProjectID (metadata.Project m)) example_surveys
                          else 0)\<rparr>)
              (recordsOf (ProjectMetadata ?d'))"
    by blast
  then have 3: "projectMetadata (fetchSurveys (\<lambda>c. c) species_service (Num 860) ?st)
       = [\<lparr>metadata.Project = \<lparr>project.ProjectID = Num 55, Name = Undefined\<rparr>,
           LastLoadDate = Str ''2024-01-01'', surveyCount = 3\<rparr>,
          \<lparr>metadata.Project = \<lparr>project.ProjectID = Num 77, Name = Undefined\<rparr>,
           LastLoadDate = Str ''2023-06-30'', surveyCount = 0\<rparr>]"
    by (simp add: recordsOf_def reply_def metadataOf_def occ)
  from 1 2 3 show ?thesis by simp
qed

subsection \<open>Empty results\<close>

text \<open>
  C5. When the project search of stage 1 yields no identifier, both keyword variants end
  with the message "No results found for keyword: ..." and the only request issued is
  the project search itself: no stage 2, 3 or 4 call is made.
\<close>

theorem no_results_for_keyword:
  assumes "svc (projectsearch kw) = Some d" and "projectIDsOf d = []"
  shows "errorMsg (fetchProjects_v1 svc kw st1) = Some (''No results found for keyword: '' @ kw)
       \<and> calls (fetchProjects_v1 svc kw st1) = calls st1 @ [projectsearch kw]
       \<and> (keyword st3 = kw \<longrightarrow>
            errorMsg (fetchProjects_v3 str time svc st3) = Some (''No results found for keyword: '' @ kw)
          \<and> calls (fetchProjects_v3 str time svc st3) = calls st3 @ [projectsearch kw])"
  using assms
  by (simp add: fetchProjects_v1_def v1_try_def fetchProjects_v3_def v3_step1_def axios_get_def
      noResultsForKeyword_def Let_def)

theorem no_results_for_keyword_witness:
  "errorMsg (fetchProjects_v1 nothing_service ''Koala'' initial) = Some ''No results found for keyword: Koala''
   \<and> calls (fetchProjects_v1 nothing_service ''Koala'' initial) = [projectsearch ''Koala'']
   \<and> errorMsg (fetchProjects_v3 (\<lambda>c. c) (\<lambda>v. None) nothing_service
         (initial :: (string, metadata, unit) app)) = Some ''No results found for keyword: Koala''
   \<and> calls (fetchProjects_v3 (\<lambda>c. c) (\<lambda>v. None) nothing_service
         (initial :: (string, metadata, unit) app)) = [projectsearch ''Koala'']"
proof -
  have 1: "nothing_service (projectsearch ''Koala'') = Some reply"
    and 2: "projectIDsOf (reply :: string data) = []"
    by (simp_all add: nothing_service_def projectIDsOf_def reply_def)
  from no_results_for_keyword [where svc = nothing_service and kw = "''Koala''" and d = reply
      and ?st1.0 = initial and ?st3.0 = "initial :: (string, metadata, unit) app"
      and str = "\<lambda>c. c" and time = "\<lambda>v. None", OF 1 2]
  show ?thesis by (simp add: initial_def)
qed

lemma filter_member_empty:
  "set A \<inter> set (map f ps) = {} \<Longrightarrow> filter (\<lambda>p. f p \<in> set A) ps = []"
  by (induction ps) auto

text \<open>
  C6. In the keyword-and-area variant, when no project of the circle is among the
  identifiers of stage 1, the run ends with the message that names the radius and
  suggests increasing it, and the requests issued are the project search and the circle
  lookup only: the metadata request is not made.
\<close>

theorem no_results_in_area:
  assumes "svc (projectsearch (keyword st)) = Some d1" and "projectIDsOf d1 \<noteq> []"
    and "location st = Some loc" and "svc (getprojects loc (radius st)) = Some d2"
    and "set (projectIDsOf d1) \<inter> set (projectIDsOf d2) = {}"
  shows "errorMsg (fetchProjects_v3 str time svc st)
           = Some (''No results found for keyword: '' @ keyword st @ '' within '' @ str (radius st)
                    @ '' meters. Try increasing the radius.'')
       \<and> calls (fetchProjects_v3 str time svc st)
           = calls st @ [projectsearch (keyword st), getprojects loc (radius st)]
       \<and> areaProjectCount (fetchProjects_v3 str time svc st) = 0"
proof (cases "data.Project d2")
  case None
  with assms show ?thesis
    by (simp add: fetchProjects_v3_def v3_step1_def v3_step2_def axios_get_def
        noResultsInArea_def Let_def)
next
  case (Some ps)
  with assms have "filter (\<lambda>p. project.ProjectID p \<in> set (projectIDsOf d1)) ps = []"
    by (intro filter_member_empty) (simp add: projectIDsOf_def)
  with assms Some show ?thesis
    by (simp add: fetchProjects_v3_def v3_step1_def v3_step2_def axios_get_def
        noResultsInArea_def Let_def)
qed

theorem no_results_in_area_witness:
  "errorMsg (fetchProjects_v3 (\<lambda>c. c) (\<lambda>v. None) elsewhere_service (initial :: (string, metadata, unit) app))
     = Some ''No results found for keyword: Koala within 6000 meters. Try increasing the radius.''
   \<and> calls (fetchProjects_v3 (\<lambda>c. c) (\<lambda>v. None) elsewhere_service (initial :: (string, metadata, unit) app))
     = [projectsearch ''Koala'',
        getprojects \<lparr>latitude = ''-16.9186'', longitude = ''145.7781''\<rparr> ''6000'']"
proof -
  let ?st = "initial :: (string, metadata, unit) app"
  let ?loc = "\<lparr>latitude = ''-16.9186'', longitude = ''145.7781''\<rparr>"
  let ?d1 = "reply\<lparr>data.Project := Some [projectOf (Num 101), projectOf (Num 102)]\<rparr> :: string data"
  let ?d2 = "reply\<lparr>data.Project := Some [projectOf (Num 7)]\<rparr> :: string data"
  have 1: "elsewhere_service (projectsearch (keyword ?st)) = Some ?d1"
    and 2: "projectIDsOf ?d1 \<noteq> []"
    and 3: "location ?st = Some ?loc"
    and 4: "elsewhere_service (getprojects ?loc (radius ?st)) = Some ?d2"
    and 5: "set (projectIDsOf ?d1) \<inter> set (projectIDsOf ?d2) = {}"
    by (simp_all add: example_defs projectIDsOf_def)
  from no_results_in_area [where str = "\<lambda>c. c" and time = "\<lambda>v. None", OF 1 2 3 4 5]
  show ?thesis by (simp add: initial_def)
qed

subsection \<open>Failures\<close>

text \<open>
  C9, at the failing input. In the species variant a transport failure of the metadata
  request is caught and logged by fetchProjectsMetadata, but no error message is set:
  the user sees the markers and an empty project list. (The \<open>catch\<close> blocks of
  fetchSurveys and of both fetchProjects variants do set a message, as the two lemmas
  after the theorem record.)
\<close>

theorem metadata_failure_not_surfaced:
  "errorMsg (fetchSurveys (\<lambda>c. c) metadata_down_service (Num 860) initial) = None
   \<and> console (fetchSurveys (\<lambda>c. c) metadata_down_service (Num 860) initial)
       = [(''Error fetching project metadata:'', TransportFailure)]
   \<and> calls (fetchSurveys (\<lambda>c. c) metadata_down_service (Num 860) initial)
       = [getsurveysbyspecies (Num 860) \<lparr>latitude = ''-16.9186'', longitude = ''145.7781''\<rparr> ''6000'',
          getprojectsmetadatabyid [Num 55]]"
  by (simp add: pipeline_defs example_defs grouping_defs Let_def)

lemma thrown_surfaced_v1:
  "snd (v1_try svc kw (st\<lparr>loadingProjects := True, errorMsg := None, projectMetadata := [], markers := []\<rparr>)) = Some e
   \<Longrightarrow> errorMsg (fetchProjects_v1 svc kw st) = Some genericError"
  by (auto simp: fetchProjects_v1_def split: prod.splits)

lemma thrown_surfaced_v3:
  "snd (v3_step1 str time svc (st\<lparr>loading := True, errorMsg := None\<rparr>)) = Some e
   \<Longrightarrow> errorMsg (fetchProjects_v3 str time svc st) = Some genericError"
  by (auto simp: fetchProjects_v3_def split: prod.splits)

subsection \<open>A metadata reply without the ProjectMetadata field\<close>

lemma fetchProjects_v1_completed:
  assumes "svc (projectsearch kw) = Some d1" and "projectIDsOf d1 \<noteq> []"
    and "location st = Some loc"
    and "svc (getsurveys (projectIDsOf d1) loc (radius st)) = Some d2"
    and "svc (getprojectsmetadatabyid (projectIDsOf d1)) = Some d3"
  shows "projectMetadata (fetchProjects_v1 svc kw st) = normalize_v1 (ProjectMetadata d3)"
    and "errorMsg (fetchProjects_v1 svc kw st) = None"
    and "console (fetchProjects_v1 svc kw st) = console st"
    and "loadingProjects (fetchProjects_v1 svc kw st) = False"
  using assms
  by (simp_all add: fetchProjects_v1_def v1_try_def axios_get_def Let_def)





subsection \<open>Sorting\<close>

lemma mset_insert_sorted: "mset (insert_sorted comparefn x ys) = add_mset x (mset ys)"
  by (induction ys) simp_all

lemma mset_js_sort: "mset (js_sort comparefn xs) = mset xs"
  by (induction xs) (simp_all add: js_sort_def mset_insert_sorted)

lemma set_js_sort: "set (js_sort comparefn xs) = set xs"
  by (metis mset_js_sort set_mset_mset)

lemma sortCompare_dates:
  "time (LastLoadDate a) = Some ta \<Longrightarrow> time (LastLoadDate b) = Some tb
   \<Longrightarrow> sortCompare (compareLastLoadDate time) a b = tb - ta"
  by (simp add: sortCompare_def compareLastLoadDate_def)

lemma insert_sorted_dates:
  assumes "time (LastLoadDate x) \<noteq> None" and "\<forall>y \<in> set ys. time (LastLoadDate y) \<noteq> None"
  shows "insert_sorted (compareLastLoadDate time) x ys
           = insort_key (\<lambda>m. - the (time (LastLoadDate m))) x ys"
  using assms
proof (induction ys)
  case Nil
  show ?case by simp
next
  case (Cons y ys)
  from Cons.prems obtain tx ty where "time (LastLoadDate x) = Some tx" "time (LastLoadDate y) = Some ty"
    by auto
  with Cons show ?case
    by (simp add: sortCompare_dates)
qed

lemma js_sort_dates:
  assumes "\<forall>m \<in> set ms. time (LastLoadDate m) \<noteq> None"
  shows "js_sort (compareLastLoadDate time) ms = sort_key (\<lambda>m. - the (time (LastLoadDate m))) ms"
  using assms
proof (induction ms)
  case Nil
  show ?case by (simp add: js_sort_def)
next
  case (Cons m ms)
  then have IH: "js_sort (compareLastLoadDate time) ms = sort_key (\<lambda>m. - the (time (LastLoadDate m))) ms"
    by simp
  have "js_sort (compareLastLoadDate time) (m # ms)
          = insert_sorted (compareLastLoadDate time) m (js_sort (compareLastLoadDate time) ms)"
    by (simp add: js_sort_def)
  also have "\<dots> = insort_key (\<lambda>m. - the (time (LastLoadDate m))) m (js_sort (compareLastLoadDate time) ms)"
    using Cons.prems by (intro insert_sorted_dates) (simp_all add: set_js_sort)
  finally show ?case by (simp add: IH)
qed

lemma filteredProjectIDs:
  "map project.ProjectID
     (case data.Project d2 of None \<Rightarrow> []
      | Some ps \<Rightarrow> filter (\<lambda>p. project.ProjectID p \<in> set A) ps)
   = filter (\<lambda>i. i \<in> set A) (projectIDsOf d2)"
  by (simp add: projectIDsOf_def filter_map comp_def split: option.splits)

lemma fetchProjects_v3_completed:
  assumes "svc (projectsearch (keyword st)) = Some d1" and "location st = Some loc"
    and "svc (getprojects loc (radius st)) = Some d2"
    and "filter (\<lambda>i. i \<in> set (projectIDsOf d1)) (projectIDsOf d2) \<noteq> []"
    and "svc (getprojectsmetadatabyid (filter (\<lambda>i. i \<in> set (projectIDsOf d1)) (projectIDsOf d2)))
           = Some d3"
  shows "projectMetadata (fetchProjects_v3 str time svc st) =
           (case ProjectMetadata d3 of
              Absent \<Rightarrow> projectMetadata st
            | Single m \<Rightarrow> [m]
            | Array ms \<Rightarrow> js_sort (compareLastLoadDate time) ms)"
proof -
  let ?fp = "case data.Project d2 of None \<Rightarrow> []
             | Some ps \<Rightarrow> filter (\<lambda>p. project.ProjectID p \<in> set (projectIDsOf d1)) ps"
  let ?ids = "filter (\<lambda>i. i \<in> set (projectIDsOf d1)) (projectIDsOf d2)"
  have ids: "map project.ProjectID ?fp = ?ids" by (rule filteredProjectIDs)
  from assms(4) have ne1: "projectIDsOf d1 \<noteq> []" by auto
  from assms(4) ids have fp: "?fp \<noteq> []" by (metis list.map_disc_iff)
  show ?thesis
    using assms(1,2,3,5) ne1 fp ids
    by (cases "ProjectMetadata d3")
       (simp_all add: fetchProjects_v3_def v3_step1_def v3_step2_def v3_step3_def axios_get_def
         Let_def)
qed

text \<open>
  C4, counterexample. In the keyword-and-area variant the second of four records has a
  LastLoadDate that is no date. Every comparison with it gives \<open>NaN\<close>, which \<open>sort\<close>
  takes for 0, and the list stays in the reply's order 1, 2, 3, 4: the record loaded at
  time 10 comes before the records loaded at times 30 and 20.
\<close>

theorem undated_metadata_order_counterexample:
  "map (project.ProjectID \<circ> metadata.Project)
     (projectMetadata (fetchProjects_v3 (\<lambda>c. c) numberTime (dated_service undated_metadata)
        (initial :: (string, metadata, unit) app)))
     = [Num 1, Num 2, Num 3, Num 4]
   \<and> map (numberTime \<circ> LastLoadDate)
     (projectMetadata (fetchProjects_v3 (\<lambda>c. c) numberTime (dated_service undated_metadata)
        (initial :: (string, metadata, unit) app)))
     = [Some 10, None, Some 30, Some 20]"
  by (simp add: pipeline_defs example_defs Let_def js_sort_def sortCompare_def
      compareLastLoadDate_def)

text \<open>
  C4 (amended). For a search that reaches the metadata reply: a single-object response
  is stored as a one-element sequence in every variant; a collection response is stored
  in the response's order in the autofill variant and, each record with its surveyCount
  added, in the species variant; in the keyword-and-area variant, when every
  LastLoadDate of the collection is a valid date, the stored sequence is a
  rearrangement of the response in descending order of LastLoadDate in which records of
  equal date keep their input order.
\<close>

theorem metadata_normalization:
  "(svc (projectsearch kw) = Some a1 \<and> projectIDsOf a1 \<noteq> [] \<and> location st1 = Some loc
      \<and> svc (getsurveys (projectIDsOf a1) loc (radius st1)) = Some a2
      \<and> svc (getprojectsmetadatabyid (projectIDsOf a1)) = Some a3
    \<longrightarrow> (ProjectMetadata a3 = Single m \<longrightarrow> projectMetadata (fetchProjects_v1 svc kw st1) = [Some m])
      \<and> (ProjectMetadata a3 = Array ms \<longrightarrow>
            projectMetadata (fetchProjects_v1 svc kw st1) = map Some ms))
   \<and> (truthy taxonId \<and> location st2 = Some loc
      \<and> svc (getsurveysbyspecies taxonId loc (radius st2)) = Some b1
      \<and> features b1 = Some svs \<and> svs \<noteq> []
      \<and> svc (getprojectsmetadatabyid (map fst (fst (aggregate str svs)))) = Some b3
    \<longrightarrow> (ProjectMetadata b3 = Single m \<longrightarrow>
            map (\<lambda>r. \<lparr>metadata.Project = metadata.Project r, LastLoadDate = LastLoadDate r\<rparr>)
              (projectMetadata (fetchSurveys str svc taxonId st2)) = [m])
      \<and> (ProjectMetadata b3 = Array ms \<longrightarrow>
            map (\<lambda>r. \<lparr>metadata.Project = metadata.Project r, LastLoadDate = LastLoadDate r\<rparr>)
              (projectMetadata (fetchSurveys str svc taxonId st2)) = ms))
   \<and> (svc (projectsearch (keyword st3)) = Some c1 \<and> location st3 = Some loc
      \<and> svc (getprojects loc (radius st3)) = Some c2
      \<and> filter (\<lambda>i. i \<in> set (projectIDsOf c1)) (projectIDsOf c2) \<noteq> []
      \<and> svc (getprojectsmetadatabyid (filter (\<lambda>i. i \<in> set (projectIDsOf c1)) (projectIDsOf c2)))
            = Some c3
    \<longrightarrow> (ProjectMetadata c3 = Single m \<longrightarrow>
            projectMetadata (fetchProjects_v3 str time svc st3) = [m])
      \<and> (ProjectMetadata c3 = Array ms \<and> (\<forall>x \<in> set ms. time (LastLoadDate x) \<noteq> None) \<longrightarrow>
            mset (projectMetadata (fetchProjects_v3 str time svc st3)) = mset ms
          \<and> sorted_wrt (\<lambda>a b. the (time (LastLoadDate a)) \<ge> the (time (LastLoadDate b)))
               (projectMetadata (fetchProjects_v3 str time svc st3))
          \<and> (\<forall>t. filter (\<lambda>x. time (LastLoadDate x) = Some t)
                    (projectMetadata (fetchProjects_v3 str time svc st3))
                 = filter (\<lambda>x. time (LastLoadDate x) = Some t) ms)))"
proof (intro conjI)
  show "svc (projectsearch kw) = Some a1 \<and> projectIDsOf a1 \<noteq> [] \<and> location st1 = Some loc
      \<and> svc (getsurveys (projectIDsOf a1) loc (radius st1)) = Some a2
      \<and> svc (getprojectsmetadatabyid (projectIDsOf a1)) = Some a3
    \<longrightarrow> (ProjectMetadata a3 = Single m \<longrightarrow> projectMetadata (fetchProjects_v1 svc kw st1) = [Some m])
      \<and> (ProjectMetadata a3 = Array ms \<longrightarrow>
            projectMetadata (fetchProjects_v1 svc kw st1) = map Some ms)"
  proof (intro impI conjI)
    assume h: "svc (projectsearch kw) = Some a1 \<and> projectIDsOf a1 \<noteq> [] \<and> location st1 = Some loc
      \<and> svc (getsurveys (projectIDsOf a1) loc (radius st1)) = Some a2
      \<and> svc (getprojectsmetadatabyid (projectIDsOf a1)) = Some a3"
    from h fetchProjects_v1_completed(1) [where svc = svc and kw = kw and ?d1.0 = a1 and st = st1
        and loc = loc and ?d2.0 = a2 and ?d3.0 = a3]
    have run: "projectMetadata (fetchProjects_v1 svc kw st1) = normalize_v1 (ProjectMetadata a3)"
      by blast
    show "projectMetadata (fetchProjects_v1 svc kw st1) = [Some m]" if "ProjectMetadata a3 = Single m"
      using that by (simp add: run normalize_v1_def)
    show "projectMetadata (fetchProjects_v1 svc kw st1) = map Some ms" if "ProjectMetadata a3 = Array ms"
      using that by (simp add: run normalize_v1_def)
  qed
next
  let ?strip = "\<lambda>r::annotated. \<lparr>metadata.Project = metadata.Project r, LastLoadDate = LastLoadDate r\<rparr>"
  show "truthy taxonId \<and> location st2 = Some loc
      \<and> svc (getsurveysbyspecies taxonId loc (radius st2)) = Some b1
      \<and> features b1 = Some svs \<and> svs \<noteq> []
      \<and> svc (getprojectsmetadatabyid (map fst (fst (aggregate str svs)))) = Some b3
    \<longrightarrow> (ProjectMetadata b3 = Single m \<longrightarrow>
            map ?strip (projectMetadata (fetchSurveys str svc taxonId st2)) = [m])
      \<and> (ProjectMetadata b3 = Array ms \<longrightarrow>
            map ?strip (projectMetadata (fetchSurveys str svc taxonId st2)) = ms)"
  proof (intro impI conjI)
    assume h: "truthy taxonId \<and> location st2 = Some loc
      \<and> svc (getsurveysbyspecies taxonId loc (radius st2)) = Some b1
      \<and> features b1 = Some svs \<and> svs \<noteq> []
      \<and> svc (getprojectsmetadatabyid (map fst (fst (aggregate str svs)))) = Some b3"
    note stored = fetchSurveys_stored [where svc = svc and taxonId = taxonId and st = st2
        and loc = loc and d = b1 and svs = svs and str = str and d' = b3]
    have strip: "?strip (annotate counts x) = x" for counts x
      by (simp add: annotate_def)
    show "map ?strip (projectMetadata (fetchSurveys str svc taxonId st2)) = [m]"
      if "ProjectMetadata b3 = Single m"
    proof -
      from h that stored
      have "projectMetadata (fetchSurveys str svc taxonId st2)
          = map (annotate (fst (aggregate str svs))) (recordsOf (ProjectMetadata b3))"
        by simp
      with that show ?thesis by (simp add: strip recordsOf_def comp_def)
    qed
    show "map ?strip (projectMetadata (fetchSurveys str svc taxonId st2)) = ms"
      if "ProjectMetadata b3 = Array ms"
    proof -
      from h that stored
      have "projectMetadata (fetchSurveys str svc taxonId st2)
          = map (annotate (fst (aggregate str svs))) (recordsOf (ProjectMetadata b3))"
        by simp
      with that show ?thesis by (simp add: strip recordsOf_def comp_def)
    qed
  qed
next
  let ?key = "\<lambda>m. - the (time (LastLoadDate m))"
  let ?out = "projectMetadata (fetchProjects_v3 str time svc st3)"
  show "svc (projectsearch (keyword st3)) = Some c1 \<and> location st3 = Some loc
      \<and> svc (getprojects loc (radius st3)) = Some c2
      \<and> filter (\<lambda>i. i \<in> set (projectIDsOf c1)) (projectIDsOf c2) \<noteq> []
      \<and> svc (getprojectsmetadatabyid (filter (\<lambda>i. i \<in> set (projectIDsOf c1)) (projectIDsOf c2)))
            = Some c3
    \<longrightarrow> (ProjectMetadata c3 = Single m \<longrightarrow> ?out = [m])
      \<and> (ProjectMetadata c3 = Array ms \<and> (\<forall>x \<in> set ms. time (LastLoadDate x) \<noteq> None) \<longrightarrow>
            mset ?out = mset ms
          \<and> sorted_wrt (\<lambda>a b. the (time (LastLoadDate a)) \<ge> the (time (LastLoadDate b))) ?out
          \<and> (\<forall>t. filter (\<lambda>x. time (LastLoadDate x) = Some t) ?out
                 = filter (\<lambda>x. time (LastLoadDate x) = Some t) ms))"
  proof (intro impI conjI allI)
    assume h: "svc (projectsearch (keyword st3)) = Some c1 \<and> location st3 = Some loc
      \<and> svc (getprojects loc (radius st3)) = Some c2
      \<and> filter (\<lambda>i. i \<in> set (projectIDsOf c1)) (projectIDsOf c2) \<noteq> []
      \<and> svc (getprojectsmetadatabyid (filter (\<lambda>i. i \<in> set (projectIDsOf c1)) (projectIDsOf c2)))
            = Some c3"
    from h fetchProjects_v3_completed [where svc = svc and st = st3 and ?d1.0 = c1 and loc = loc
        and ?d2.0 = c2 and ?d3.0 = c3 and str = str and time = time]
    have run: "?out = (case ProjectMetadata c3 of
              Absent \<Rightarrow> projectMetadata st3
            | Single m \<Rightarrow> [m]
            | Array ms \<Rightarrow> js_sort (compareLastLoadDate time) ms)"
      by blast
    show "?out = [m]" if "ProjectMetadata c3 = Single m"
      using that by (simp add: run)
    assume v: "ProjectMetadata c3 = Array ms \<and> (\<forall>x \<in> set ms. time (LastLoadDate x) \<noteq> None)"
    then have out: "?out = sort_key ?key ms"
      by (simp add: run js_sort_dates)
    show "mset ?out = mset ms"
      by (simp add: out)
    have "sorted (map ?key ?out)"
      by (simp add: out)
    then show "sorted_wrt (\<lambda>a b. the (time (LastLoadDate a)) \<ge> the (time (LastLoadDate b))) ?out"
      by (simp add: sorted_map)
    fix t
    have valid: "\<And>x. x \<in> set ms \<Longrightarrow> (time (LastLoadDate x) = Some t) = (?key x = - t)"
      using v by auto
    have "filter (\<lambda>x. time (LastLoadDate x) = Some t) ?out = filter (\<lambda>x. ?key x = - t) ?out"
      by (rule filter_cong) (simp_all add: out valid)
    also have "\<dots> = filter (\<lambda>x. ?key x = - t) ms"
      unfolding out by (rule sort_key_stable)
    also have "\<dots> = filter (\<lambda>x. time (LastLoadDate x) = Some t) ms"
      by (rule filter_cong) (simp_all add: valid)
    finally show "filter (\<lambda>x. time (LastLoadDate x) = Some t) ?out
        = filter (\<lambda>x. time (LastLoadDate x) = Some t) ms" .
  qed
qed

theorem metadata_normalization_witness:
  "projectMetadata (fetchProjects_v1 koala_service ''Koala'' initial)
     = [Some (metadataOf (Num 101) (Str ''2024-01-01'')), Some (metadataOf (Num 102) (Str ''2024-01-01''))]
   \<and> map (\<lambda>r. \<lparr>metadata.Project = metadata.Project r, LastLoadDate = LastLoadDate r\<rparr>)
       (projectMetadata (fetchSurveys (\<lambda>c. c) species_service (Num 860) initial))
     = [metadataOf (Num 55) (Str ''2024-01-01''), metadataOf (Num 77) (Str ''2023-06-30'')]
   \<and> projectMetadata (fetchProjects_v3 (\<lambda>c. c) numberTime single_object_service
         (initial :: (string, metadata, unit) app))
     = [metadataOf (Num 101) (Str ''2024-01-01'')]
   \<and> filter (\<lambda>x. numberTime (LastLoadDate x) = Some 30)
       (projectMetadata (fetchProjects_v3 (\<lambda>c. c) numberTime (dated_service dated_metadata)
          (initial :: (string, metadata, unit) app)))
     = [metadataOf (Num 2) (Num 30), metadataOf (Num 3) (Num 30)]
   \<and> map (project.ProjectID \<circ> metadata.Project)
       (projectMetadata (fetchProjects_v3 (\<lambda>c. c) numberTime (dated_service dated_metadata)
          (initial :: (string, metadata, unit) app)))
     = [Num 2, Num 3, Num 4, Num 1]"
proof -
  let ?st1 = "initial :: (string, metadata option, string marker) app"
  let ?st2 = "initial :: (string, annotated, string surveyMarker) app"
  let ?st3 = "initial :: (string, metadata, unit) app"
  let ?loc = "\<lparr>latitude = ''-16.9186'', longitude = ''145.7781''\<rparr>"
  let ?a1 = "reply\<lparr>data.Project := Some [projectOf (Num 101), projectOf (Num 102)]\<rparr> :: string data"
  let ?a2 = "reply\<lparr>features := Some [surveyAt ''-16.9'' ''145.7'' (Num 101) ''s1'']\<rparr> :: string data"
  let ?ms1 = "[metadataOf (Num 101) (Str ''2024-01-01''), metadataOf (Num 102) (Str ''2024-01-01'')]"
  let ?a3 = "reply\<lparr>ProjectMetadata := Array ?ms1\<rparr> :: string data"
  let ?b1 = "reply\<lparr>features := Some example_surveys\<rparr> :: string data"
  let ?ms2 = "[metadataOf (Num 55) (Str ''2024-01-01''), metadataOf (Num 77) (Str ''2023-06-30'')]"
  let ?b3 = "reply\<lparr>ProjectMetadata := Array ?ms2\<rparr> :: string data"
  let ?k2 = "reply\<lparr>data.Project := Some [projectOf (Num 7), projectOf (Num 101)]\<rparr> :: string data"
  let ?m3 = "metadataOf (Num 101) (Str ''2024-01-01'')"
  let ?k3 = "reply\<lparr>ProjectMetadata := Single ?m3\<rparr> :: string data"
  let ?c1 = "reply\<lparr>data.Project := Some (map metadata.Project dated_metadata)\<rparr> :: string data"
  let ?c3 = "reply\<lparr>ProjectMetadata := Array dated_metadata\<rparr> :: string data"
  have v1: "koala_service (projectsearch ''Koala'') = Some ?a1 \<and> projectIDsOf ?a1 \<noteq> []
      \<and> location ?st1 = Some ?loc
      \<and> koala_service (getsurveys (projectIDsOf ?a1) ?loc (radius ?st1)) = Some ?a2
      \<and> koala_service (getprojectsmetadatabyid (projectIDsOf ?a1)) = Some ?a3"
    and a3: "ProjectMetadata ?a3 = Array ?ms1"
    by (simp_all add: example_defs projectIDsOf_def)
  have v2: "truthy (Num 860) \<and> location ?st2 = Some ?loc
      \<and> species_service (getsurveysbyspecies (Num 860) ?loc (radius ?st2)) = Some ?b1
      \<and> features ?b1 = Some example_surveys \<and> example_surveys \<noteq> []
      \<and> species_service (getprojectsmetadatabyid (map fst (fst (aggregate (\<lambda>c. c) example_surveys))))
           = Some ?b3"
    and b3: "ProjectMetadata ?b3 = Array ?ms2"
    by (simp_all add: example_defs)
  have v3s: "single_object_service (projectsearch (keyword ?st3)) = Some ?a1 \<and> location ?st3 = Some ?loc
      \<and> single_object_service (getprojects ?loc (radius ?st3)) = Some ?k2
      \<and> filter (\<lambda>i. i \<in> set (projectIDsOf ?a1)) (projectIDsOf ?k2) \<noteq> []
      \<and> single_object_service
            (getprojectsmetadatabyid (filter (\<lambda>i. i \<in> set (projectIDsOf ?a1)) (projectIDsOf ?k2)))
           = Some ?k3"
    and k3: "ProjectMetadata ?k3 = Single ?m3"
    by (simp_all add: example_defs projectIDsOf_def)
  have v3a: "dated_service dated_metadata (projectsearch (keyword ?st3)) = Some ?c1
      \<and> location ?st3 = Some ?loc
      \<and> dated_service dated_metadata (getprojects ?loc (radius ?st3)) = Some ?c1
      \<and> filter (\<lambda>i. i \<in> set (projectIDsOf ?c1)) (projectIDsOf ?c1) \<noteq> []
      \<and> dated_service dated_metadata
            (getprojectsmetadatabyid (filter (\<lambda>i. i \<in> set (projectIDsOf ?c1)) (projectIDsOf ?c1)))
           = Some ?c3"
    and c3: "ProjectMetadata ?c3 = Array dated_metadata
      \<and> (\<forall>x \<in> set dated_metadata. numberTime (LastLoadDate x) \<noteq> None)"
    by (simp_all add: example_defs projectIDsOf_def)
  from metadata_normalization [where svc = koala_service and kw = "''Koala''" and ?st1.0 = ?st1
      and loc = ?loc and ?a1.0 = ?a1 and ?a2.0 = ?a2 and ?a3.0 = ?a3 and ms = ?ms1] v1 a3
  have 1: "projectMetadata (fetchProjects_v1 koala_service ''Koala'' ?st1) = map Some ?ms1"
    by blast
  from metadata_normalization [where svc = species_service and taxonId = "Num 860" and ?st2.0 = ?st2
      and loc = ?loc and ?b1.0 = ?b1 and svs = example_surveys and str = "\<lambda>c. c" and ?b3.0 = ?b3
      and ms = ?ms2] v2 b3
  have 2: "map (\<lambda>r. \<lparr>metadata.Project = metadata.Project r, LastLoadDate = LastLoadDate r\<rparr>)
       (projectMetadata (fetchSurveys (\<lambda>c. c) species_service (Num 860) ?st2)) = ?ms2"
    by blast
  from metadata_normalization [where svc = single_object_service and ?st3.0 = ?st3 and loc = ?loc
      and ?c1.0 = ?a1 and ?c2.0 = ?k2 and ?c3.0 = ?k3 and m = ?m3 and str = "\<lambda>c. c"
      and time = numberTime] v3s k3
  have 3: "projectMetadata (fetchProjects_v3 (\<lambda>c. c) numberTime single_object_service ?st3) = [?m3]"
    by blast
  from metadata_normalization [where svc = "dated_service dated_metadata" and ?st3.0 = ?st3
      and loc = ?loc and ?c1.0 = ?c1 and ?c2.0 = ?c1 and ?c3.0 = ?c3 and ms = dated_metadata
      and str = "\<lambda>c. c" and time = numberTime] v3a c3
  have "filter (\<lambda>x. numberTime (LastLoadDate x) = Some 30)
       (projectMetadata (fetchProjects_v3 (\<lambda>c. c) numberTime (dated_service dated_metadata) ?st3))
     = filter (\<lambda>x. numberTime (LastLoadDate x) = Some 30) dated_metadata"
    by blast
  then have 4: "filter (\<lambda>x. numberTime (LastLoadDate x) = Some 30)
       (projectMetadata (fetchProjects_v3 (\<lambda>c. c) numberTime (dated_service dated_metadata) ?st3))
     = [metadataOf (Num 2) (Num 30), metadataOf (Num 3) (Num 30)]"
    by (simp add: dated_metadata_def metadataOf_def numberTime_def)
  have 5: "map (project.ProjectID \<circ> metadata.Project)
       (projectMetadata (fetchProjects_v3 (\<lambda>c. c) numberTime (dated_service dated_metadata) ?st3))
     = [Num 2, Num 3, Num 4, Num 1]"
    by (simp add: pipeline_defs example_defs Let_def js_sort_def sortCompare_def
        compareLastLoadDate_def)
  from 1 2 3 4 5 show ?thesis by simp
qed

subsection \<open>The metadata request\<close>

lemma metadata_request_v3:
  assumes "getprojectsmetadatabyid ids \<in> set (calls (fetchProjects_v3 str time svc st))"
    and "getprojectsmetadatabyid ids \<notin> set (calls st)"
  shows "\<exists>d1 loc d2. svc (projectsearch (keyword st)) = Some d1 \<and> location st = Some loc
           \<and> svc (getprojects loc (radius st)) = Some d2
           \<and> ids = filter (\<lambda>i. i \<in> set (projectIDsOf d1)) (projectIDsOf d2)"
  using assms
  by (auto simp: fetchProjects_v3_def v3_step1_def v3_step2_def v3_step3_def axios_get_def
      projectIDsOf_def Let_def filter_map comp_def
      split: option.splits jsfield.splits if_splits prod.splits)

lemma metadata_request_v1:
  assumes "getprojectsmetadatabyid ids \<in> set (calls (fetchProjects_v1 svc kw st))"
    and "getprojectsmetadatabyid ids \<notin> set (calls st)"
  shows "\<exists>d1. svc (projectsearch kw) = Some d1 \<and> ids = projectIDsOf d1"
  using assms
  by (auto simp: fetchProjects_v1_def v1_try_def axios_get_def Let_def
      split: option.splits if_splits prod.splits)

lemma stored_step3:
  "m \<in> set (projectMetadata (fst (v3_step3 time d3 st)))
   \<Longrightarrow> m \<in> set (projectMetadata st) \<or> m \<in> set (recordsOf (ProjectMetadata d3))"
  by (cases "ProjectMetadata d3") (auto simp: v3_step3_def recordsOf_def set_js_sort)

lemma stored_step2:
  assumes "m \<in> set (projectMetadata (fst (v3_step2 str time svc A st)))"
    and "m \<notin> set (projectMetadata st)"
  shows "\<exists>loc d2 d3. location st = Some loc \<and> svc (getprojects loc (radius st)) = Some d2
           \<and> svc (getprojectsmetadatabyid (filter (\<lambda>i. i \<in> set A) (projectIDsOf d2))) = Some d3
           \<and> m \<in> set (recordsOf (ProjectMetadata d3))"
proof (cases "location st")
  case None
  with assms show ?thesis by (simp add: v3_step2_def)
next
  case (Some loc)
  note loc = this
  show ?thesis
  proof (cases "svc (getprojects loc (radius st))")
    case None
    with assms loc show ?thesis by (simp add: v3_step2_def axios_get_def)
  next
    case (Some d2)
    note d2 = this
    let ?fp = "case data.Project d2 of None \<Rightarrow> []
               | Some ps \<Rightarrow> filter (\<lambda>p. project.ProjectID p \<in> set A) ps"
    let ?ids = "filter (\<lambda>i. i \<in> set A) (projectIDsOf d2)"
    have ids: "map project.ProjectID ?fp = ?ids" by (rule filteredProjectIDs)
    show ?thesis
    proof (cases "?fp = []")
      case True
      with assms loc d2 show ?thesis by (simp add: v3_step2_def axios_get_def Let_def)
    next
      case False
      note fp = this
      show ?thesis
      proof (cases "svc (getprojectsmetadatabyid ?ids)")
        case None
        with assms loc d2 fp ids show ?thesis
          by (simp add: v3_step2_def axios_get_def Let_def)
      next
        case (Some d3)
        let ?st3 = "st\<lparr>calls := calls st @ [getprojects loc (radius st)],
                       areaProjectCount := length ?fp,
                       calls := calls st @ [getprojects loc (radius st)]
                                  @ [getprojectsmetadatabyid ?ids]\<rparr>"
        from assms(1) loc d2 fp ids Some
        have "m \<in> set (projectMetadata (fst (v3_step3 time d3 ?st3)))"
          by (simp add: v3_step2_def axios_get_def Let_def)
        then have "m \<in> set (projectMetadata ?st3) \<or> m \<in> set (recordsOf (ProjectMetadata d3))"
          by (rule stored_step3)
        with assms(2) have "m \<in> set (recordsOf (ProjectMetadata d3))" by simp
        with loc d2 Some show ?thesis by blast
      qed
    qed
  qed
qed

lemma stored_step1:
  assumes "m \<in> set (projectMetadata (fst (v3_step1 str time svc st)))"
    and "m \<notin> set (projectMetadata st)"
  shows "\<exists>d1 loc d2 d3. svc (projectsearch (keyword st)) = Some d1
           \<and> location st = Some loc \<and> svc (getprojects loc (radius st)) = Some d2
           \<and> svc (getprojectsmetadatabyid (filter (\<lambda>i. i \<in> set (projectIDsOf d1)) (projectIDsOf d2))) = Some d3
           \<and> m \<in> set (recordsOf (ProjectMetadata d3))"
proof (cases "svc (projectsearch (keyword st))")
  case None
  with assms show ?thesis by (simp add: v3_step1_def axios_get_def)
next
  case (Some d1)
  show ?thesis
  proof (cases "projectIDsOf d1 = []")
    case True
    with assms Some show ?thesis by (simp add: v3_step1_def axios_get_def Let_def)
  next
    case False
    let ?st2 = "st\<lparr>calls := calls st @ [projectsearch (keyword st)],
                   keywordProjectCount := length (projectIDsOf d1)\<rparr>"
    from assms(1) Some False
    have "m \<in> set (projectMetadata (fst (v3_step2 str time svc (projectIDsOf d1) ?st2)))"
      by (simp add: v3_step1_def axios_get_def Let_def)
    moreover from assms(2) have "m \<notin> set (projectMetadata ?st2)" by simp
    ultimately have "\<exists>loc d2 d3. location ?st2 = Some loc \<and> svc (getprojects loc (radius ?st2)) = Some d2
           \<and> svc (getprojectsmetadatabyid (filter (\<lambda>i. i \<in> set (projectIDsOf d1)) (projectIDsOf d2))) = Some d3
           \<and> m \<in> set (recordsOf (ProjectMetadata d3))"
      by (rule stored_step2)
    with Some show ?thesis by simp
  qed
qed

lemma stored_metadata_v3:
  assumes "m \<in> set (projectMetadata (fetchProjects_v3 str time svc st))"
    and "m \<notin> set (projectMetadata st)"
  shows "\<exists>d1 loc d2 d3. svc (projectsearch (keyword st)) = Some d1 \<and> location st = Some loc
           \<and> svc (getprojects loc (radius st)) = Some d2
           \<and> svc (getprojectsmetadatabyid (filter (\<lambda>i. i \<in> set (projectIDsOf d1)) (projectIDsOf d2))) = Some d3
           \<and> m \<in> set (recordsOf (ProjectMetadata d3))"
proof -
  let ?st0 = "st\<lparr>loading := True, errorMsg := None\<rparr>"
  from assms(1) have "m \<in> set (projectMetadata (fst (v3_step1 str time svc ?st0)))"
    by (auto simp: fetchProjects_v3_def split: prod.splits option.splits)
  moreover from assms(2) have "m \<notin> set (projectMetadata ?st0)" by simp
  ultimately have "\<exists>d1 loc d2 d3. svc (projectsearch (keyword ?st0)) = Some d1
           \<and> location ?st0 = Some loc \<and> svc (getprojects loc (radius ?st0)) = Some d2
           \<and> svc (getprojectsmetadatabyid (filter (\<lambda>i. i \<in> set (projectIDsOf d1)) (projectIDsOf d2))) = Some d3
           \<and> m \<in> set (recordsOf (ProjectMetadata d3))"
    by (rule stored_step1)
  then show ?thesis by simp
qed

lemma stored_metadata_v1:
  assumes "Some m \<in> set (projectMetadata (fetchProjects_v1 svc kw st))"
  shows "\<exists>d1 d3. svc (projectsearch kw) = Some d1
           \<and> svc (getprojectsmetadatabyid (projectIDsOf d1)) = Some d3
           \<and> m \<in> set (recordsOf (ProjectMetadata d3))"
proof (cases "svc (projectsearch kw)")
  case None
  with assms show ?thesis by (simp add: fetchProjects_v1_def v1_try_def axios_get_def)
next
  case (Some d1)
  note d1 = this
  show ?thesis
  proof (cases "projectIDsOf d1 = []")
    case True
    with assms d1 show ?thesis
      by (simp add: fetchProjects_v1_def v1_try_def axios_get_def Let_def)
  next
    case False
    note ne = this
    show ?thesis
    proof (cases "location st")
      case None
      with assms d1 ne show ?thesis
        by (simp add: fetchProjects_v1_def v1_try_def axios_get_def Let_def)
    next
      case (Some loc)
      note loc = this
      show ?thesis
      proof (cases "svc (getsurveys (projectIDsOf d1) loc (radius st))")
        case None
        with assms d1 ne loc show ?thesis
          by (simp add: fetchProjects_v1_def v1_try_def axios_get_def Let_def)
      next
        case (Some d2)
        note d2 = this
        show ?thesis
        proof (cases "svc (getprojectsmetadatabyid (projectIDsOf d1))")
          case None
          with assms d1 ne loc d2 show ?thesis
            by (simp add: fetchProjects_v1_def v1_try_def axios_get_def Let_def)
        next
          case (Some d3)
          with assms d1 ne loc d2 have "Some m \<in> set (normalize_v1 (ProjectMetadata d3))"
            by (simp add: fetchProjects_v1_def v1_try_def axios_get_def Let_def)
          then have "m \<in> set (recordsOf (ProjectMetadata d3))"
            by (cases "ProjectMetadata d3") (auto simp: normalize_v1_def recordsOf_def)
          with d1 Some show ?thesis by blast
        qed
      qed
    qed
  qed
qed

text \<open>
  C1, counterexample. In the autofill variant the keyword matches projects 101 and 102
  and the circle-restricted survey lookup returns a survey of project 101 only; the
  metadata request is nevertheless issued with "101,102", and the record of project
  102 is stored.
\<close>

theorem unfiltered_metadata_request_counterexample:
  "koala_service (getsurveys [Num 101, Num 102] \<lparr>latitude = ''-16.9186'', longitude = ''145.7781''\<rparr> ''6000'')
     = Some (reply\<lparr>features := Some [surveyAt ''-16.9'' ''145.7'' (Num 101) ''s1'']\<rparr>)
   \<and> calls (fetchProjects_v1 koala_service ''Koala'' initial)
     = [projectsearch ''Koala'',
        getsurveys [Num 101, Num 102] \<lparr>latitude = ''-16.9186'', longitude = ''145.7781''\<rparr> ''6000'',
        getprojectsmetadatabyid [Num 101, Num 102]]
   \<and> map (map_option (project.ProjectID \<circ> metadata.Project))
         (projectMetadata (fetchProjects_v1 koala_service ''Koala'' initial))
     = [Some (Num 101), Some (Num 102)]"
  by (simp add: pipeline_defs example_defs Let_def)

text \<open>
  The keyword-and-area fetchProjects starts with \<open>setLoading(true); setErrorMsg(null)\<close>
  only: a search that ends early leaves the records of an earlier search in the list.
\<close>

lemma earlier_records_remain:
  "projectMetadata (fetchProjects_v3 (\<lambda>c. c) numberTime nothing_service
       (after_earlier_search :: (string, metadata, unit) app))
     = [metadataOf (Num 999) (Num 5)]"
  by (simp add: pipeline_defs example_defs Let_def)

text \<open>
  C1 (amended). Among the requests of a keyword-and-area search, the identifier list of
  the metadata request consists of exactly the circle's project ids that are among the
  ids of the search's own project search (stage 1), in the circle's order. The autofill
  variant filters no project by area: the identifier list of its metadata request is
  the whole list of stage 1. In both variants, when the service returns metadata
  records only for requested ids, every record that the search stores has a project id
  among the ids of stage 1 (and, in the keyword-and-area variant, among the circle's).
  The keyword-and-area variant does not empty the list when a search starts; nothing is
  stated about records that were in the list before the search.
\<close>

theorem metadata_request_ids:
  "(getprojectsmetadatabyid ids \<in> set (calls (fetchProjects_v3 str time svc st3))
      \<and> getprojectsmetadatabyid ids \<notin> set (calls st3) \<longrightarrow>
        (\<exists>d1 loc d2. svc (projectsearch (keyword st3)) = Some d1 \<and> location st3 = Some loc
           \<and> svc (getprojects loc (radius st3)) = Some d2
           \<and> ids = filter (\<lambda>i. i \<in> set (projectIDsOf d1)) (projectIDsOf d2)))
   \<and> (getprojectsmetadatabyid ids \<in> set (calls (fetchProjects_v1 svc kw st1))
      \<and> getprojectsmetadatabyid ids \<notin> set (calls st1) \<longrightarrow>
        (\<exists>d1. svc (projectsearch kw) = Some d1 \<and> ids = projectIDsOf d1))
   \<and> ((\<forall>ids' d. svc (getprojectsmetadatabyid ids') = Some d \<longrightarrow>
          (\<forall>m \<in> set (recordsOf (ProjectMetadata d)).
             project.ProjectID (metadata.Project m) \<in> set ids'))
       \<longrightarrow> (\<forall>m \<in> set (projectMetadata (fetchProjects_v3 str time svc st3)).
              m \<in> set (projectMetadata st3)
              \<or> (\<exists>d1 loc d2. svc (projectsearch (keyword st3)) = Some d1
                    \<and> location st3 = Some loc \<and> svc (getprojects loc (radius st3)) = Some d2
                    \<and> project.ProjectID (metadata.Project m) \<in> set (projectIDsOf d1)
                    \<and> project.ProjectID (metadata.Project m) \<in> set (projectIDsOf d2)))
         \<and> (\<forall>m. Some m \<in> set (projectMetadata (fetchProjects_v1 svc kw st1)) \<longrightarrow>
              (\<exists>d1. svc (projectsearch kw) = Some d1
                 \<and> project.ProjectID (metadata.Project m) \<in> set (projectIDsOf d1))))"
proof (intro conjI impI ballI allI)
  assume "getprojectsmetadatabyid ids \<in> set (calls (fetchProjects_v3 str time svc st3))
      \<and> getprojectsmetadatabyid ids \<notin> set (calls st3)"
  then show "\<exists>d1 loc d2. svc (projectsearch (keyword st3)) = Some d1 \<and> location st3 = Some loc
               \<and> svc (getprojects loc (radius st3)) = Some d2
               \<and> ids = filter (\<lambda>i. i \<in> set (projectIDsOf d1)) (projectIDsOf d2)"
    using metadata_request_v3 [of ids str time svc st3] by blast
next
  assume "getprojectsmetadatabyid ids \<in> set (calls (fetchProjects_v1 svc kw st1))
      \<and> getprojectsmetadatabyid ids \<notin> set (calls st1)"
  then show "\<exists>d1. svc (projectsearch kw) = Some d1 \<and> ids = projectIDsOf d1"
    using metadata_request_v1 [of ids svc kw st1] by blast
next
  fix m
  assume wb: "\<forall>ids' d. svc (getprojectsmetadatabyid ids') = Some d \<longrightarrow>
              (\<forall>m \<in> set (recordsOf (ProjectMetadata d)). project.ProjectID (metadata.Project m) \<in> set ids')"
    and m: "m \<in> set (projectMetadata (fetchProjects_v3 str time svc st3))"
  show "m \<in> set (projectMetadata st3)
        \<or> (\<exists>d1 loc d2. svc (projectsearch (keyword st3)) = Some d1
              \<and> location st3 = Some loc \<and> svc (getprojects loc (radius st3)) = Some d2
              \<and> project.ProjectID (metadata.Project m) \<in> set (projectIDsOf d1)
              \<and> project.ProjectID (metadata.Project m) \<in> set (projectIDsOf d2))"
  proof (cases "m \<in> set (projectMetadata st3)")
    case True
    then show ?thesis by simp
  next
    case False
    from stored_metadata_v3 [OF m False] obtain d1 loc d2 d3
      where d1: "svc (projectsearch (keyword st3)) = Some d1"
        and loc: "location st3 = Some loc"
        and d2: "svc (getprojects loc (radius st3)) = Some d2"
        and d3: "svc (getprojectsmetadatabyid (filter (\<lambda>i. i \<in> set (projectIDsOf d1)) (projectIDsOf d2))) = Some d3"
        and rec: "m \<in> set (recordsOf (ProjectMetadata d3))"
      by blast
    from wb d3 rec have "project.ProjectID (metadata.Project m)
        \<in> set (filter (\<lambda>i. i \<in> set (projectIDsOf d1)) (projectIDsOf d2))"
      by blast
    then have "project.ProjectID (metadata.Project m) \<in> set (projectIDsOf d1)
        \<and> project.ProjectID (metadata.Project m) \<in> set (projectIDsOf d2)"
      by simp
    with d1 loc d2 show ?thesis by blast
  qed
next
  fix m
  assume wb: "\<forall>ids' d. svc (getprojectsmetadatabyid ids') = Some d \<longrightarrow>
              (\<forall>m \<in> set (recordsOf (ProjectMetadata d)). project.ProjectID (metadata.Project m) \<in> set ids')"
    and m: "Some m \<in> set (projectMetadata (fetchProjects_v1 svc kw st1))"
  from stored_metadata_v1 [OF m] obtain d1 d3
    where d1: "svc (projectsearch kw) = Some d1"
      and d3: "svc (getprojectsmetadatabyid (projectIDsOf d1)) = Some d3"
      and rec: "m \<in> set (recordsOf (ProjectMetadata d3))"
    by blast
  from wb d3 rec have "project.ProjectID (metadata.Project m) \<in> set (projectIDsOf d1)"
    by blast
  with d1 show "\<exists>d1. svc (projectsearch kw) = Some d1
                     \<and> project.ProjectID (metadata.Project m) \<in> set (projectIDsOf d1)"
    by simp
qed

theorem metadata_request_ids_witness:
  "calls (fetchProjects_v3 (\<lambda>c. c) numberTime koala_service
       (after_earlier_search :: (string, metadata, unit) app))
     = [projectsearch ''Koala'',
        getprojects \<lparr>latitude = ''-16.9186'', longitude = ''145.7781''\<rparr> ''6000'',
        getprojectsmetadatabyid [Num 101]]
   \<and> [Num 101] = filter (\<lambda>i. i \<in> set [Num 101, Num 102]) [Num 7, Num 101]
   \<and> map (project.ProjectID \<circ> metadata.Project)
        (projectMetadata (fetchProjects_v3 (\<lambda>c. c) numberTime koala_service
           (after_earlier_search :: (string, metadata, unit) app))) = [Num 101]
   \<and> Num 101 \<in> set [Num 101, Num 102]"
proof -
  let ?st3 = "after_earlier_search :: (string, metadata, unit) app"
  let ?st1 = "initial :: (string, metadata option, string marker) app"
  let ?run = "fetchProjects_v3 (\<lambda>c. c) numberTime koala_service ?st3"
  let ?m = "metadataOf (Num 101) (Str ''2024-01-01'')"
  note C1 = metadata_request_ids [where ?st3.0 = ?st3 and ?st1.0 = ?st1 and svc = koala_service
      and kw = "''Koala''" and ids = "[Num 101]" and str = "\<lambda>c. c" and time = numberTime]
  have run: "calls ?run = [projectsearch ''Koala'',
        getprojects \<lparr>latitude = ''-16.9186'', longitude = ''145.7781''\<rparr> ''6000'',
        getprojectsmetadatabyid [Num 101]]"
    by (simp add: pipeline_defs example_defs Let_def)
  have stored: "projectMetadata ?run = [?m]"
    by (simp add: pipeline_defs example_defs Let_def js_sort_def)
  have fresh: "getprojectsmetadatabyid [Num 101] \<notin> set (calls ?st3)"
    and new: "?m \<notin> set (projectMetadata ?st3)"
    by (simp_all add: example_defs)
  have wb: "\<forall>ids' d. koala_service (getprojectsmetadatabyid ids') = Some d \<longrightarrow>
          (\<forall>m \<in> set (recordsOf (ProjectMetadata d)).
             project.ProjectID (metadata.Project m) \<in> set ids')"
    by (auto simp: koala_service_def reply_def recordsOf_def metadataOf_def)
  from run have "getprojectsmetadatabyid [Num 101] \<in> set (calls ?run)"
    by simp
  with C1 fresh obtain d1 loc d2
    where "koala_service (projectsearch (keyword ?st3)) = Some d1"
      and "koala_service (getprojects loc (radius ?st3)) = Some d2"
      and "[Num 101] = filter (\<lambda>i. i \<in> set (projectIDsOf d1)) (projectIDsOf d2)"
    by blast
  then have ids: "[Num 101] = filter (\<lambda>i. i \<in> set [Num 101, Num 102]) [Num 7, Num 101]"
    by (auto simp: example_defs projectIDsOf_def)
  from stored have "?m \<in> set (projectMetadata ?run)" by simp
  with C1 wb new obtain e1
    where "koala_service (projectsearch (keyword ?st3)) = Some e1"
      and "project.ProjectID (metadata.Project ?m) \<in> set (projectIDsOf e1)"
    by blast
  then have mem: "Num 101 \<in> set [Num 101, Num 102]"
    by (auto simp: example_defs projectIDsOf_def)
  from run ids stored mem show ?thesis
    by (simp add: metadataOf_def)
qed

subsection \<open>Suggestions\<close>

lemma set_insert_sorted: "set (insert_sorted comparefn x ys) = insert x (set ys)"
  by (induction ys) auto

lemma sorted_insert_sorted:
  assumes total: "\<And>a b. sortCompare comparefn a b \<le> 0 \<or> sortCompare comparefn b a \<le> 0"
    and trans: "\<And>a b c. sortCompare comparefn a b \<le> 0 \<Longrightarrow> sortCompare comparefn b c \<le> 0
                  \<Longrightarrow> sortCompare comparefn a c \<le> 0"
    and "sorted_wrt (\<lambda>a b. sortCompare comparefn a b \<le> 0) ys"
  shows "sorted_wrt (\<lambda>a b. sortCompare comparefn a b \<le> 0) (insert_sorted comparefn x ys)"
  using assms(3)
proof (induction ys)
  case Nil
  show ?case by simp
next
  case (Cons y ys)
  show ?case
  proof (cases "sortCompare comparefn x y \<le> 0")
    case True
    with Cons.prems trans show ?thesis by auto
  next
    case False
    with total have "sortCompare comparefn y x \<le> 0" by blast
    with False Cons show ?thesis by (auto simp: set_insert_sorted)
  qed
qed

lemma sorted_js_sort:
  assumes "\<And>a b. sortCompare comparefn a b \<le> 0 \<or> sortCompare comparefn b a \<le> 0"
    and "\<And>a b c. sortCompare comparefn a b \<le> 0 \<Longrightarrow> sortCompare comparefn b c \<le> 0
                  \<Longrightarrow> sortCompare comparefn a c \<le> 0"
  shows "sorted_wrt (\<lambda>a b. sortCompare comparefn a b \<le> 0) (js_sort comparefn xs)"
proof (induction xs)
  case Nil
  show ?case by (simp add: js_sort_def)
next
  case (Cons x xs)
  have "js_sort comparefn (x # xs) = insert_sorted comparefn x (js_sort comparefn xs)"
    by (simp add: js_sort_def)
  with sorted_insert_sorted [of comparefn "js_sort comparefn xs" x] assms Cons show ?case
    by simp
qed

lemma lex_le_refl: "lex_le a a"
  by (induction a) simp_all

lemma lex_le_total: "lex_le a b \<or> lex_le b a"
proof (induction a b rule: lex_le.induct)
  case (3 x xs y ys)
  then show ?case
    by (cases "(of_char x :: nat) < of_char y"; cases "(of_char y :: nat) < of_char x")
       (auto simp: not_less dest: antisym)
qed simp_all

lemma lex_le_trans: "lex_le a b \<Longrightarrow> lex_le b c \<Longrightarrow> lex_le a c"
proof (induction a b arbitrary: c rule: lex_le.induct)
  case (3 x xs y ys)
  then show ?case by (cases c) auto
qed simp_all

lemma codeUnitCompare_le: "(codeUnitCompare a b \<le> 0) = lex_le a b"
  by (simp add: codeUnitCompare_def lex_le_refl)

text \<open>
  C8, counterexample. The autofill variant stores the species of the reply in the
  reply's order: for the input "k" and a reply that lists Phascolarctos before Dacelo,
  the suggestion list is not sorted by scientific name.
\<close>

theorem suggestions_unsorted_counterexample:
  "map ScientificName (suggestions (fetchSuggestions_v1 suggestion_service ''k''
       (initial :: (string, unit, unit) app)))
     = [''Phascolarctos cinereus'', ''Dacelo novaeguineae'']
   \<and> \<not> sorted_wrt lex_le
       (map ScientificName (suggestions (fetchSuggestions_v1 suggestion_service ''k''
          (initial :: (string, unit, unit) app))))"
  by (simp add: fetchSuggestions_v1_def fetchSuggestions_start_def fetchSuggestions_v1_finish_def
      suggestion_service_def reply_def speciesOf_def initial_def)

text \<open>
  C8 (amended). For every non-empty input whose species search succeeds, the suggestion
  list of the species variant is a rearrangement of the reply's species that is sorted
  by scientific name in the order of \<open>localeCompare\<close> (taken to be a consistent
  comparison: total and transitive); the suggestion list of the autofill variant is
  the reply's species in the reply's order.
\<close>

theorem suggestions_order:
  assumes "\<forall>a b. localeCompare a b \<le> 0 \<or> localeCompare b a \<le> 0"
    and "\<forall>a b c. localeCompare a b \<le> 0 \<longrightarrow> localeCompare b c \<le> 0 \<longrightarrow> localeCompare a c \<le> 0"
    and "input \<noteq> []" and "svc (speciessearch input) = Some d"
  shows "sorted_wrt (\<lambda>a b. localeCompare (ScientificName a) (ScientificName b) \<le> 0)
           (suggestions (fetchSuggestions_v2 localeCompare svc input st))
       \<and> mset (suggestions (fetchSuggestions_v2 localeCompare svc input st))
           = mset (case Species d of None \<Rightarrow> [] | Some sp \<Rightarrow> sp)
       \<and> suggestions (fetchSuggestions_v1 svc input st1)
           = (case Species d of None \<Rightarrow> [] | Some sp \<Rightarrow> sp)"
proof -
  let ?cmp = "compareScientificName localeCompare"
  let ?sp = "case Species d of None \<Rightarrow> [] | Some sp \<Rightarrow> sp"
  have cmp: "\<And>a b. sortCompare ?cmp a b = localeCompare (ScientificName a) (ScientificName b)"
    by (simp add: sortCompare_def compareScientificName_def)
  have out: "suggestions (fetchSuggestions_v2 localeCompare svc input st) = js_sort ?cmp ?sp"
    using assms(3,4)
    by (simp add: fetchSuggestions_v2_def fetchSuggestions_start_def fetchSuggestions_v2_finish_def)
  have "sorted_wrt (\<lambda>a b. sortCompare ?cmp a b \<le> 0) (js_sort ?cmp ?sp)"
  proof (rule sorted_js_sort)
    show "sortCompare ?cmp a b \<le> 0 \<or> sortCompare ?cmp b a \<le> 0" for a b
      using assms(1) by (simp add: cmp)
    show "sortCompare ?cmp a c \<le> 0"
      if "sortCompare ?cmp a b \<le> 0" and "sortCompare ?cmp b c \<le> 0" for a b c
      using assms(2) that unfolding cmp by blast
  qed
  then have 1: "sorted_wrt (\<lambda>a b. localeCompare (ScientificName a) (ScientificName b) \<le> 0)
           (suggestions (fetchSuggestions_v2 localeCompare svc input st))"
    by (simp add: cmp out)
  have 2: "mset (suggestions (fetchSuggestions_v2 localeCompare svc input st)) = mset ?sp"
    by (simp add: out mset_js_sort)
  have 3: "suggestions (fetchSuggestions_v1 svc input st1) = ?sp"
    using assms(3,4)
    by (simp add: fetchSuggestions_v1_def fetchSuggestions_start_def fetchSuggestions_v1_finish_def)
  from 1 2 3 show ?thesis by simp
qed

theorem suggestions_order_witness:
  "map ScientificName (suggestions (fetchSuggestions_v2 codeUnitCompare suggestion_service ''k''
       (initial :: (string, unit, unit) app)))
     = [''Dacelo novaeguineae'', ''Phascolarctos cinereus'']
   \<and> sorted_wrt (\<lambda>a b. codeUnitCompare (ScientificName a) (ScientificName b) \<le> 0)
       (suggestions (fetchSuggestions_v2 codeUnitCompare suggestion_service ''k''
          (initial :: (string, unit, unit) app)))"
proof -
  let ?d = "reply\<lparr>Species := Some [speciesOf ''Phascolarctos cinereus'', speciesOf ''Dacelo novaeguineae'']\<rparr> :: string data"
  have total: "\<forall>a b. codeUnitCompare a b \<le> 0 \<or> codeUnitCompare b a \<le> 0"
    by (simp add: codeUnitCompare_le lex_le_total)
  have trans: "\<forall>a b c. codeUnitCompare a b \<le> 0 \<longrightarrow> codeUnitCompare b c \<le> 0 \<longrightarrow> codeUnitCompare a c \<le> 0"
    unfolding codeUnitCompare_le by (blast intro: lex_le_trans)
  have input: "''k'' \<noteq> []" by simp
  have svc: "suggestion_service (speciessearch ''k'') = Some ?d"
    by (simp add: suggestion_service_def)
  have run: "map ScientificName (suggestions (fetchSuggestions_v2 codeUnitCompare suggestion_service ''k''
       (initial :: (string, unit, unit) app)))
     = [''Dacelo novaeguineae'', ''Phascolarctos cinereus'']"
    by (simp add: fetchSuggestions_v2_def fetchSuggestions_start_def fetchSuggestions_v2_finish_def
        suggestion_service_def reply_def speciesOf_def initial_def js_sort_def sortCompare_def
        compareScientificName_def codeUnitCompare_def)
  from suggestions_order [where localeCompare = codeUnitCompare and svc = suggestion_service
      and input = "''k''" and d = ?d and st = "initial :: (string, unit, unit) app"
      and ?st1.0 = "initial :: (string, unit, unit) app",
      OF total trans input svc] run
  show ?thesis by simp
qed

subsection \<open>Debouncing\<close>

lemma call_at_fresh:
  assumes "pending D = []"
  shows "pending (call_at delay D (t, a)) = [(nextId D, t + delay, a)]
       \<and> timeoutId (call_at delay D (t, a)) = Some (nextId D)
       \<and> fired (call_at delay D (t, a)) = fired D"
  using assms
  by (simp add: call_at_def debounced_call_def setTimeout_def clearTimeout_def run_timers_def)

lemma call_at_supersedes:
  assumes "pending D = [(i, due, a)]" and "timeoutId D = Some i" and "t < due"
  shows "pending (call_at delay D (t, a')) = [(nextId D, t + delay, a')]
       \<and> timeoutId (call_at delay D (t, a')) = Some (nextId D)
       \<and> fired (call_at delay D (t, a')) = fired D"
  using assms
  by (simp add: call_at_def debounced_call_def setTimeout_def clearTimeout_def run_timers_def)

lemma run_calls_pending:
  assumes "pending D = [(i, t + delay, a)]" and "timeoutId D = Some i"
    and "within_window delay (t # map fst cs)"
  shows "\<exists>j. pending (run_calls delay cs D)
               = [(j, fst (last ((t, a) # cs)) + delay, snd (last ((t, a) # cs)))]
           \<and> timeoutId (run_calls delay cs D) = Some j
           \<and> fired (run_calls delay cs D) = fired D"
  using assms
proof (induction cs arbitrary: D i t a)
  case Nil
  then show ?case by (simp add: run_calls_def)
next
  case (Cons c cs)
  obtain t' a' where c: "c = (t', a')" by (cases c)
  from Cons.prems(3) c have win: "t \<le> t'" "t' < t + delay" "within_window delay (t' # map fst cs)"
    by simp_all
  let ?D = "call_at delay D (t', a')"
  from call_at_supersedes [OF Cons.prems(1,2) win(2)]
  have D': "pending ?D = [(nextId D, t' + delay, a')]" "timeoutId ?D = Some (nextId D)"
    "fired ?D = fired D"
    by simp_all
  from Cons.IH [OF D'(1,2) win(3)] D'(3) c show ?case
    by (simp add: run_calls_def)
qed

lemma debounce_fires_once:
  assumes "cs \<noteq> []" and "within_window delay (map fst cs)"
  shows "fired (run_timers T (run_calls delay cs debounce))
           = (if fst (last cs) + delay \<le> T then [(fst (last cs) + delay, snd (last cs))] else [])"
proof -
  from assms(1) obtain c cs' where cs: "cs = c # cs'" by (cases cs) auto
  obtain t a where c: "c = (t, a)" by (cases c)
  let ?D = "call_at delay debounce (t, a)"
  have "pending (debounce :: 'a debounced) = []" by (simp add: debounce_def)
  from call_at_fresh [OF this, of delay t a]
  have D: "pending ?D = [(nextId (debounce :: 'a debounced), t + delay, a)]"
    "timeoutId ?D = Some (nextId (debounce :: 'a debounced))" "fired ?D = []"
    by (simp_all add: debounce_def)
  from assms(2) cs c have "within_window delay (t # map fst cs')" by simp
  from run_calls_pending [OF D(1,2) this] D(3) obtain j
    where "pending (run_calls delay cs' ?D) = [(j, fst (last cs) + delay, snd (last cs))]"
      and "fired (run_calls delay cs' ?D) = []"
    by (auto simp: cs c)
  moreover have "run_calls delay cs debounce = run_calls delay cs' ?D"
    by (simp add: run_calls_def cs c)
  ultimately show ?thesis
    by (simp add: run_timers_def)
qed

text \<open>
  The autofill component as it runs: every keystroke is followed by a render, so the
  next keystroke calls a new closure and clears no timer. The keystrokes "k", "ko",
  "koa" at 0, 100 and 250 ms run fetchSuggestions three times.
\<close>

lemma rerendered_closure_fires_each_time:
  "fired (run_timers 1000
      (foldl (keystroke_at 300) debounce [(0, ''k''), (100, ''ko''), (250, ''koa'')]))
     = [(300, ''k''), (400, ''ko''), (550, ''koa'')]"
  by (simp add: keystroke_at_def rerender_def call_at_def debounced_call_def setTimeout_def
      clearTimeout_def run_timers_def debounce_def)

lemma calls_handleInputChange_v2:
  "calls (handleInputChange_v2 trim text st)
     = calls st @ (if trim text \<noteq> [] \<and> text \<noteq> [] then [speciessearch text] else [])"
  by (simp add: handleInputChange_v2_def fetchSuggestions_start_def Let_def)

lemma calls_keystrokes_v2:
  "calls (run_v2 trim localeCompare (map Keystroke texts) st)
     = calls st @ map speciessearch (filter (\<lambda>text. trim text \<noteq> [] \<and> text \<noteq> []) texts)"
  by (induction texts arbitrary: st)
     (simp_all add: run_v2_def step_v2_def calls_handleInputChange_v2)

text \<open>
  C7, counterexample. The species variant's handleInputChange calls fetchSuggestions
  directly: the keystrokes "k", "ko", "koa" issue three species searches, however close
  in time they are. And a reply is stored whenever it arrives: when the reply for "k"
  arrives after the reply for "ko", the list shown for the input "ko" is the one for "k".
\<close>

theorem keystrokes_not_debounced_counterexample:
  "calls (run_v2 trim_ascii codeUnitCompare [Keystroke ''k'', Keystroke ''ko'', Keystroke ''koa'']
       (initial :: (string, unit, unit) app))
     = [speciessearch ''k'', speciessearch ''ko'', speciessearch ''koa'']
   \<and> keyword (run_v2 trim_ascii codeUnitCompare
         [Keystroke ''k'', Keystroke ''ko'', Reply (Some reply_ko), Reply (Some reply_k)]
         (initial :: (string, unit, unit) app)) = ''ko''
   \<and> map ScientificName (suggestions (run_v2 trim_ascii codeUnitCompare
         [Keystroke ''k'', Keystroke ''ko'', Reply (Some reply_ko), Reply (Some reply_k)]
         (initial :: (string, unit, unit) app))) = [''Kerivoula papuensis'']"
  by (simp add: run_v2_def step_v2_def handleInputChange_v2_def fetchSuggestions_start_def
      fetchSuggestions_v2_finish_def trim_ascii_def isAsciiSpace_def initial_def reply_k_def
      reply_ko_def reply_def speciesOf_def js_sort_def Let_def)

text \<open>
  C7 (amended). The species variant's autocomplete is not debounced: a run of
  keystrokes issues one species search for each keystroke whose text is not empty and
  does not trim to the empty text, in the order of the keystrokes, and no other request.
  Replies are not matched to inputs: in the species variant, after any keystrokes and
  replies, a successful reply leaves the suggestion list equal to that reply's species
  in the order that the variant's sort by scientific name gives them; in the autofill
  variant a successful reply replaces the list by the reply's species also when a newer
  request has been started since. Nothing is stated about the number of requests of
  the autofill variant's debounced handler.
\<close>

theorem autocomplete_calls:
  "calls (run_v2 trim localeCompare (map Keystroke texts) st)
       = calls st @ map speciessearch (filter (\<lambda>text. trim text \<noteq> [] \<and> text \<noteq> []) texts)
   \<and> suggestions (run_v2 trim localeCompare (evs @ [Reply (Some d)]) st)
       = js_sort (compareScientificName localeCompare) (case Species d of None \<Rightarrow> [] | Some sp \<Rightarrow> sp)
   \<and> suggestions (fetchSuggestions_v1_finish (Some d) (fst (fetchSuggestions_start newer st)))
       = (case Species d of None \<Rightarrow> [] | Some sp \<Rightarrow> sp)"
proof (intro conjI)
  show "calls (run_v2 trim localeCompare (map Keystroke texts) st)
       = calls st @ map speciessearch (filter (\<lambda>text. trim text \<noteq> [] \<and> text \<noteq> []) texts)"
    by (rule calls_keystrokes_v2)
next
  show "suggestions (run_v2 trim localeCompare (evs @ [Reply (Some d)]) st)
       = js_sort (compareScientificName localeCompare) (case Species d of None \<Rightarrow> [] | Some sp \<Rightarrow> sp)"
    by (simp add: run_v2_def step_v2_def fetchSuggestions_v2_finish_def)
next
  show "suggestions (fetchSuggestions_v1_finish (Some d) (fst (fetchSuggestions_start newer st)))
       = (case Species d of None \<Rightarrow> [] | Some sp \<Rightarrow> sp)"
    by (simp add: fetchSuggestions_v1_finish_def)
qed

theorem autocomplete_calls_witness:
  "calls (run_v2 trim_ascii codeUnitCompare
       (map Keystroke [''k'', ''ko'', ''  '', ''koa''])
       (initial :: (string, unit, unit) app))
     = [speciessearch ''k'', speciessearch ''ko'', speciessearch ''koa'']
   \<and> map ScientificName (suggestions (run_v2 trim_ascii codeUnitCompare
         ([Keystroke ''k'', Keystroke ''ko'', Reply (Some reply_ko)] @ [Reply (Some reply_k)])
         (initial :: (string, unit, unit) app))) = [''Kerivoula papuensis'']"
proof -
  let ?st = "initial :: (string, unit, unit) app"
  note C7 = autocomplete_calls [where trim = trim_ascii and localeCompare = codeUnitCompare
      and texts = "[''k'', ''ko'', ''  '', ''koa'']" and st = ?st
      and evs = "[Keystroke ''k'', Keystroke ''ko'', Reply (Some reply_ko)]" and d = reply_k
      and newer = "''ko''"]
  have texts: "filter (\<lambda>text. trim_ascii text \<noteq> [] \<and> text \<noteq> []) [''k'', ''ko'', ''  '', ''koa'']
      = [''k'', ''ko'', ''koa'']"
    by (simp add: trim_ascii_def isAsciiSpace_def)
  have sorted: "map ScientificName (js_sort (compareScientificName codeUnitCompare)
      (case Species reply_k of None \<Rightarrow> [] | Some sp \<Rightarrow> sp)) = [''Kerivoula papuensis'']"
    by (simp add: reply_k_def reply_def speciesOf_def js_sort_def)
  from C7 texts sorted show ?thesis
    by (simp add: initial_def)
qed

end
